theory Spec2Isabelle
  imports Complex_Main "HOL-Library.Sublist"
begin

section \<open>JavaScript values\<close>

text \<open>
  The values that travel through \<^verbatim>\<open>server.js\<close>: the fields of a JSON request body, the
  payload printed by the extraction tool, and the objects handed to \<^verbatim>\<open>res.json\<close> and
  \<^verbatim>\<open>res.write\<close>. A number is kept as its canonical JavaScript rendering (the text
  \<^verbatim>\<open>String(n)\<close> yields), since the server only copies numbers and prints them. An object
  is the list of its own properties in insertion order.
\<close>

datatype json =
    Undefined
  | Null
  | Bool bool
  | Num string
  | Str string
  | Arr "json list"
  | Obj "(string \<times> json) list"

text \<open>\<^verbatim>\<open>!v\<close> is \<open>\<not> truthy v\<close>: undefined, null, false, 0, NaN and the empty string are falsy.\<close>

fun truthy :: "json \<Rightarrow> bool" where
  "truthy Undefined = False"
| "truthy Null = False"
| "truthy (Bool b) = b"
| "truthy (Num n) = (n \<noteq> ''0'' \<and> n \<noteq> ''NaN'')"
| "truthy (Str s) = (s \<noteq> [])"
| "truthy (Arr xs) = True"
| "truthy (Obj kvs) = True"

fun join_with :: "string \<Rightarrow> string list \<Rightarrow> string" where
  "join_with sep [] = []"
| "join_with sep [s] = s"
| "join_with sep (s # t # ts) = s @ sep @ join_with sep (t # ts)"

text \<open>
  String conversion, as a template literal \<^verbatim>\<open>`${v}`\<close> and \<^verbatim>\<open>Array.prototype.join\<close> perform
  it. An array prints its elements separated by commas, with null and undefined elements
  printed as nothing. An object prints as \<^verbatim>\<open>[object Object]\<close>, unless it has an own property
  \<^verbatim>\<open>toString\<close>: no JSON value is callable, so the conversion then throws the TypeError
  \<^verbatim>\<open>Cannot convert object to primitive value\<close>, here \<open>None\<close>.
\<close>

definition cannot_convert :: string where
  "cannot_convert = ''Cannot convert object to primitive value''"

fun to_str :: "json \<Rightarrow> string option" where
  "to_str Undefined = Some ''undefined''"
| "to_str Null = Some ''null''"
| "to_str (Bool b) = Some (if b then ''true'' else ''false'')"
| "to_str (Num n) = Some n"
| "to_str (Str s) = Some s"
| "to_str (Arr xs) =
     map_option (join_with '','')
       (those (map (\<lambda>x. if x = Undefined \<or> x = Null then Some [] else to_str x) xs))"
| "to_str (Obj kvs) = (if ''toString'' \<in> fst ` set kvs then None else Some ''[object Object]'')"

definition convertible :: "json \<Rightarrow> bool" where
  "convertible v = (to_str v \<noteq> None)"

text \<open>\<^verbatim>\<open>args.join(' ')\<close>: the elements converted as above and joined by the separator.\<close>

definition js_join :: "string \<Rightarrow> json list \<Rightarrow> string option" where
  "js_join sep xs =
     map_option (join_with sep)
       (those (map (\<lambda>x. if x = Undefined \<or> x = Null then Some [] else to_str x) xs))"

text \<open>A destructuring default \<^verbatim>\<open>{ format = 'mp4' }\<close> applies to an undefined field only.\<close>

definition default_to :: "string \<Rightarrow> json \<Rightarrow> json" where
  "default_to d v = (if v = Undefined then Str d else v)"

text \<open>Decimal rendering of \<^verbatim>\<open>Date.now()\<close> and of an exit code inside a template literal.\<close>

definition digit :: "nat \<Rightarrow> char" where
  "digit n = ''0123456789'' ! (n mod 10)"

fun show_nat :: "nat \<Rightarrow> string" where
  "show_nat n = (if n < 10 then [digit n] else show_nat (n div 10) @ [digit n])"

declare show_nat.simps [simp del]

definition show_int :: "int \<Rightarrow> string" where
  "show_int i = (if i < 0 then ''-'' @ show_nat (nat (- i)) else show_nat (nat i))"

text \<open>The exit code passed to a \<^verbatim>\<open>close\<close> listener is null when a signal ended the process.\<close>

fun show_code :: "int option \<Rightarrow> string" where
  "show_code None = ''null''"
| "show_code (Some c) = show_int c"

text \<open>
  Reading a property \<^verbatim>\<open>v.k\<close>. It throws a TypeError on undefined and null; on an object it
  yields the property or undefined. The keys the server reads are not properties of
  strings, numbers, booleans or arrays, where the read yields undefined.
\<close>

definition cannot_read :: "string \<Rightarrow> string \<Rightarrow> string" where
  "cannot_read v k =
     ''Cannot read properties of '' @ v @ '' (reading '' @ [CHR 0x27] @ k @ [CHR 0x27] @ '')''"

fun get_prop :: "json \<Rightarrow> string \<Rightarrow> string + json" where
  "get_prop Undefined k = Inl (cannot_read ''undefined'' k)"
| "get_prop Null k = Inl (cannot_read ''null'' k)"
| "get_prop (Obj kvs) k = Inr (case map_of kvs k of None \<Rightarrow> Undefined | Some v \<Rightarrow> v)"
| "get_prop v k = Inr Undefined"

text \<open>Reading the listed properties in order; the first throw ends the evaluation.\<close>

fun get_props :: "json \<Rightarrow> string list \<Rightarrow> string + (string \<times> json) list" where
  "get_props v [] = Inr []"
| "get_props v (k # ks) =
     (case get_prop v k of
        Inl e \<Rightarrow> Inl e
      | Inr x \<Rightarrow> (case get_props v ks of Inl e \<Rightarrow> Inl e | Inr kvs \<Rightarrow> Inr ((k, x) # kvs)))"

text \<open>The property of a reply or of an event frame, for reading what a handler sent.\<close>

fun field :: "json \<Rightarrow> string \<Rightarrow> json" where
  "field (Obj kvs) k = (case map_of kvs k of None \<Rightarrow> Undefined | Some v \<Rightarrow> v)"
| "field v k = Undefined"

section \<open>Paths and the file system\<close>

text \<open>
  \<^verbatim>\<open>path.join\<close> of Node on POSIX: the non-empty parts are joined by a slash and the result is
  normalised. Normalisation drops empty and \<^verbatim>\<open>.\<close> segments and lets a \<^verbatim>\<open>..\<close> segment remove
  the segment before it; above the root of an absolute path a \<^verbatim>\<open>..\<close> is dropped.
\<close>

fun split_on :: "char \<Rightarrow> string \<Rightarrow> string list" where
  "split_on c [] = [[]]"
| "split_on c (x # xs) =
     (if x = c then [] # split_on c xs
      else (case split_on c xs of [] \<Rightarrow> [[x]] | s # ss \<Rightarrow> (x # s) # ss))"

fun normalizeString :: "bool \<Rightarrow> string list \<Rightarrow> string list \<Rightarrow> string list" where
  "normalizeString allowAboveRoot res [] = res"
| "normalizeString allowAboveRoot res (s # ss) =
     (if s = [] \<or> s = ''.'' then normalizeString allowAboveRoot res ss
      else if s = ''..'' then
        (if res \<noteq> [] \<and> last res \<noteq> ''..'' then normalizeString allowAboveRoot (butlast res) ss
         else if allowAboveRoot then normalizeString allowAboveRoot (res @ [''..'']) ss
         else normalizeString allowAboveRoot res ss)
      else normalizeString allowAboveRoot (res @ [s]) ss)"

definition normalize :: "string \<Rightarrow> string" where
  "normalize path =
     (if path = [] then ''.''
      else
        let isAbsolute = (hd path = CHR ''/'');
            trailingSeparator = (last path = CHR ''/'');
            segs = normalizeString (\<not> isAbsolute) [] (split_on CHR ''/'' path)
        in if segs = [] then (if isAbsolute then ''/'' else if trailingSeparator then ''./'' else ''.'')
           else (if isAbsolute then ''/'' else []) @ join_with ''/'' segs
                  @ (if trailingSeparator then ''/'' else []))"

definition path_join :: "string \<Rightarrow> string \<Rightarrow> string" where
  "path_join a b =
     (if a = [] \<and> b = [] then ''.''
      else normalize (if a = [] then b else if b = [] then a else a @ ''/'' @ b))"

text \<open>
  \<^verbatim>\<open>__dirname\<close> is the directory of \<^verbatim>\<open>server.js\<close>; the container image copies the script
  into its working directory \<^verbatim>\<open>/app\<close>.
\<close>

definition dirname :: string where
  "dirname = ''/app''"

definition DOWNLOADS_DIR :: string where
  "DOWNLOADS_DIR = path_join dirname ''downloads''"

text \<open>
  The file system lists every regular file and every directory, the root included, under
  its normalised absolute path, with the \<^verbatim>\<open>mtimeMs\<close> that \<^verbatim>\<open>stat\<close> reports for it. The order
  of the entries is the order in which a directory listing returns them.
\<close>

datatype node =
    File real
  | Dir real


fun isDirectory :: "node \<Rightarrow> bool" where
  "isDirectory (File t) = False"
| "isDirectory (Dir t) = True"

type_synonym fs = "(string \<times> node) list"

text \<open>What a path resolves to. A path that ends in a slash resolves to a directory only.\<close>

definition lookup :: "fs \<Rightarrow> string \<Rightarrow> node option" where
  "lookup d p =
     (if p \<noteq> [] \<and> p \<noteq> ''/'' \<and> last p = CHR ''/''
      then (case map_of d (butlast p) of Some (Dir t) \<Rightarrow> Some (Dir t) | _ \<Rightarrow> None)
      else map_of d p)"

definition existsSync :: "fs \<Rightarrow> string \<Rightarrow> bool" where
  "existsSync d p = (lookup d p \<noteq> None)"

definition quoted :: "string \<Rightarrow> string" where
  "quoted p = [CHR 0x27] @ p @ [CHR 0x27]"


text \<open>The directory that holds a path, and the new time of a directory after a change in it.\<close>

definition parent :: "string \<Rightarrow> string" where
  "parent p = path_join p ''..''"

definition touch :: "real \<Rightarrow> string \<Rightarrow> fs \<Rightarrow> fs" where
  "touch t q d = map (\<lambda>entry. if fst entry = q \<and> isDirectory (snd entry) then (q, Dir t) else entry) d"

text \<open>
  \<^verbatim>\<open>unlinkSync\<close> removes a regular file and throws on a directory. \<open>t\<close> is the time at which
  the file system records the change in the directory that held the file.
\<close>

definition unlinkSync :: "real \<Rightarrow> fs \<Rightarrow> string \<Rightarrow> string + fs" where
  "unlinkSync t d p =
     (case lookup d p of
        None \<Rightarrow> Inl (''ENOENT: no such file or directory, unlink '' @ quoted p)
      | Some (Dir m) \<Rightarrow> Inl (''EISDIR: illegal operation on a directory, unlink '' @ quoted p)
      | Some (File m) \<Rightarrow> Inr (touch t (parent p) (filter (\<lambda>entry. fst entry \<noteq> p) d)))"

text \<open>
  The name under which a path is listed in a directory, if it lies directly in it. A
  listing holds files and directories alike and never \<^verbatim>\<open>.\<close> or \<^verbatim>\<open>..\<close>.
\<close>

definition entry_name :: "string \<Rightarrow> string \<Rightarrow> string option" where
  "entry_name dir p =
     (let name = drop (length dir + 1) p
      in if prefix (dir @ ''/'') p \<and> name \<noteq> [] \<and> CHR ''/'' \<notin> set name
            \<and> name \<noteq> ''.'' \<and> name \<noteq> ''..''
         then Some name else None)"

definition readdirSync :: "fs \<Rightarrow> string \<Rightarrow> string list" where
  "readdirSync d dir = List.map_filter (\<lambda>entry. entry_name dir (fst entry)) d"




section \<open>The periodic sweep\<close>




section \<open>Requests, the external tool and what a handler does\<close>

text \<open>
  What a handler reads of a request: the three body fields (undefined when the body does
  not carry them), \<^verbatim>\<open>req.protocol\<close> and \<^verbatim>\<open>req.get('host')\<close> (a string, or undefined
  when the request has no such header).
\<close>

record request =
  body_url :: json
  body_format :: json
  body_quality :: json
  protocol :: string
  host :: "string option"

text \<open>
  A child process is started in one of two ways: \<^verbatim>\<open>exec\<close> hands one command line to the
  shell, which parses it; \<^verbatim>\<open>spawn\<close> takes the file and the array of arguments, each of
  which reaches the process as one argument, unparsed.
\<close>

datatype launch =
    Exec string
  | Spawn string "json list"

text \<open>
  What happens while a spawned process runs: data on its two pipes, and the caller closing
  the connection. How it ends: \<^verbatim>\<open>close\<close> with the exit code, or \<^verbatim>\<open>error\<close> when the process
  could not be started. \<open>disk\<close> is the file system as the \<^verbatim>\<open>close\<close> listener finds it.
\<close>

datatype event =
    StdoutData string
  | StderrData string
  | Disconnect

datatype ending =
    CloseEv "int option"
  | ErrorEv string

record run =
  events :: "event list"
  ending :: ending
  disk :: fs

text \<open>
  The surroundings of a handler: the clock, the value of
  \<^verbatim>\<open>Math.random().toString(36).substr(2, 9)\<close>, the behaviour of the external tool for a given
  array of arguments, the outcome of \<^verbatim>\<open>execAsync\<close> for a given command line (the rejection
  message or the captured stdout) and \<^verbatim>\<open>JSON.parse\<close> (the SyntaxError message or the value).
\<close>

record env =
  Date_now :: nat
  Math_random :: string
  spawn :: "string \<Rightarrow> json list \<Rightarrow> run"
  execAsync :: "string \<Rightarrow> string + string"
  JSON_parse :: "string \<Rightarrow> string + json"

text \<open>
  The observable steps of a handler, in order. \<open>Kill\<close> stands for ending the child process
  from the server; \<open>Uncaught\<close> is an exception that nothing catches (thrown by an emitter
  without listener, or the rejection of an \<^verbatim>\<open>async\<close> handler), which ends the server;
  \<open>Fault\<close> is an exception thrown by a handler while the router calls it, which the router
  answers with its error response of status 500.
\<close>

datatype effect =
    Launch launch
  | SetHeader string string
  | Status nat
  | Json json
  | Write json
  | End
  | Download string string
  | Kill
  | Uncaught string
  | Fault string

record outcome =
  job :: "string option"
  effects :: "effect list"

definition url_required :: outcome where
  "url_required =
     \<lparr>job = None,
      effects = [Status 400,
                 Json (Obj [(''success'', Bool False), (''error'', Str ''URL is required'')])]\<rparr>"

section \<open>Video information\<close>

text \<open>The mapping of \<^verbatim>\<open>info.formats?.map(f => ({...})) || []\<close>.\<close>

fun reduce_formats :: "json list \<Rightarrow> string + json list" where
  "reduce_formats [] = Inr []"
| "reduce_formats (f # fs) =
     (case get_props f [''format_id'', ''ext'', ''resolution'', ''filesize''] of
        Inl e \<Rightarrow> Inl e
      | Inr kvs \<Rightarrow> (case reduce_formats fs of Inl e \<Rightarrow> Inl e | Inr rs \<Rightarrow> Inr (Obj kvs # rs)))"

definition formats_of :: "json \<Rightarrow> string + json" where
  "formats_of formats =
     (case formats of
        Undefined \<Rightarrow> Inr (Arr [])
      | Null \<Rightarrow> Inr (Arr [])
      | Arr fs \<Rightarrow> (case reduce_formats fs of Inl e \<Rightarrow> Inl e | Inr rs \<Rightarrow> Inr (Arr rs))
      | _ \<Rightarrow> Inl ''info.formats?.map is not a function'')"

definition info_data :: "json \<Rightarrow> string + json" where
  "info_data info =
     (case get_props info
             [''title'', ''duration'', ''thumbnail'', ''description'', ''uploader'',
              ''upload_date'', ''view_count''] of
        Inl e \<Rightarrow> Inl e
      | Inr kvs \<Rightarrow>
          (case get_prop info ''formats'' of
             Inl e \<Rightarrow> Inl e
           | Inr formats \<Rightarrow>
               (case formats_of formats of
                  Inl e \<Rightarrow> Inl e
                | Inr fl \<Rightarrow> Inr (Obj (kvs @ [(''formats'', fl)])))))"

definition info_cmd :: "string \<Rightarrow> string" where
  "info_cmd url = ''yt-dlp --dump-json '' @ [CHR 0x22] @ url @ [CHR 0x22]"

definition info_failed :: "string \<Rightarrow> effect list" where
  "info_failed message = [Status 500, Json (Obj [(''success'', Bool False), (''error'', Str message)])]"

text \<open>The template literal that builds the command line is inside the \<^verbatim>\<open>try\<close> block.\<close>

definition api_info :: "env \<Rightarrow> request \<Rightarrow> outcome" where
  "api_info e req =
     (let url = body_url req
      in if \<not> truthy url then url_required
         else
           (case to_str url of
              None \<Rightarrow> \<lparr>job = None, effects = info_failed cannot_convert\<rparr>
            | Some u \<Rightarrow>
                let cmd = info_cmd u
                in \<lparr>job = None,
                    effects = Launch (Exec cmd) #
                      (case execAsync e cmd of
                         Inl message \<Rightarrow> info_failed message
                       | Inr stdout \<Rightarrow>
                           (case JSON_parse e stdout of
                              Inl message \<Rightarrow> info_failed message
                            | Inr info \<Rightarrow>
                                (case info_data info of
                                   Inl message \<Rightarrow> info_failed message
                                 | Inr data \<Rightarrow>
                                     [Json (Obj [(''success'', Bool True), (''data'', data)])])))\<rparr>))"

section \<open>Download jobs\<close>

text \<open>The job identifier \<^verbatim>\<open>`video_${Date.now()}_${Math.random().toString(36).substr(2, 9)}`\<close>.\<close>

definition jobId_of :: "string \<Rightarrow> env \<Rightarrow> string" where
  "jobId_of kind e = kind @ ''_'' @ show_nat (Date_now e) @ ''_'' @ Math_random e"

definition formatStr_of :: "json \<Rightarrow> json \<Rightarrow> string" where
  "formatStr_of format quality =
     (if quality = Str ''best'' then
        (if format = Str ''mp4'' then ''bestvideo[ext=mp4]+bestaudio[ext=m4a]/best[ext=mp4]/best''
         else ''bestvideo+bestaudio/best'')
      else if quality = Str ''1080p'' then ''bestvideo[height<=1080]+bestaudio/best[height<=1080]''
      else if quality = Str ''720p'' then ''bestvideo[height<=720]+bestaudio/best[height<=720]''
      else if quality = Str ''480p'' then ''bestvideo[height<=480]+bestaudio/best[height<=480]''
      else ''bestvideo+bestaudio/best'')"

text \<open>The \<^verbatim>\<open>stderr += data.toString()\<close> of the \<^verbatim>\<open>data\<close> listener on the error pipe.\<close>

fun stderr_of :: "event list \<Rightarrow> string" where
  "stderr_of [] = []"
| "stderr_of (StderrData d # es) = d @ stderr_of es"
| "stderr_of (ev # es) = stderr_of es"

text \<open>
  The promise around the child process: \<^verbatim>\<open>close\<close> with code 0 resolves it, \<^verbatim>\<open>close\<close> with any
  other code rejects it with \<^verbatim>\<open>stderr || `Process exited with code ${code}`\<close>, and \<^verbatim>\<open>error\<close>
  rejects it with the error of the failed start.
\<close>

definition settle :: "run \<Rightarrow> string + unit" where
  "settle r =
     (case ending r of
        CloseEv code \<Rightarrow>
          if code = Some 0 then Inr ()
          else Inl (let stderr = stderr_of (events r)
                    in if stderr \<noteq> [] then stderr else ''Process exited with code '' @ show_code code)
      | ErrorEv message \<Rightarrow> Inl message)"

definition job_failed :: "string \<Rightarrow> string \<Rightarrow> effect list" where
  "job_failed message jobId =
     [Status 500,
      Json (Obj [(''success'', Bool False), (''error'', Str message), (''jobId'', Str jobId)])]"

definition downloadUrl_of :: "request \<Rightarrow> string \<Rightarrow> string" where
  "downloadUrl_of req fileName =
     protocol req @ ''://'' @ (case host req of None \<Rightarrow> ''undefined'' | Some h \<Rightarrow> h)
       @ ''/api/file/'' @ fileName"

definition job_done :: "string \<Rightarrow> request \<Rightarrow> string \<Rightarrow> string \<Rightarrow> effect list" where
  "job_done message req jobId fileName =
     [Json (Obj [(''success'', Bool True), (''message'', Str message), (''jobId'', Str jobId),
                 (''fileName'', Str fileName), (''downloadUrl'', Str (downloadUrl_of req fileName))])]"

subsection \<open>\<^verbatim>\<open>POST /api/download\<close>\<close>

text \<open>The array \<^verbatim>\<open>args\<close>, with the format and the URL as the body carries them.\<close>

definition download_args :: "string \<Rightarrow> request \<Rightarrow> json list" where
  "download_args outputPath req =
     (let format = default_to ''mp4'' (body_format req);
          quality = default_to ''best'' (body_quality req)
      in [Str ''-f'', Str (formatStr_of format quality),
          Str ''--merge-output-format'', format,
          Str ''-o'', Str outputPath,
          Str ''--no-playlist'',
          body_url req])"

text \<open>
  The steps of the handler. The template literal of \<^verbatim>\<open>outputPath\<close> is evaluated before the
  \<^verbatim>\<open>try\<close> block, so its TypeError rejects the promise of the handler, which nothing
  handles. Inside the promise around the child process, the line that logs
  \<^verbatim>\<open>args.join(' ')\<close> is evaluated before \<^verbatim>\<open>spawn\<close>; its TypeError rejects that promise and
  reaches the \<^verbatim>\<open>catch\<close> block.
\<close>

definition api_download :: "env \<Rightarrow> request \<Rightarrow> outcome" where
  "api_download e req =
     (if \<not> truthy (body_url req) then url_required
      else
        let jobId = jobId_of ''video'' e
        in (case to_str (default_to ''mp4'' (body_format req)) of
              None \<Rightarrow> \<lparr>job = Some jobId, effects = [Uncaught cannot_convert]\<rparr>
            | Some format \<Rightarrow>
                let fileName = jobId @ ''.'' @ format;
                    outputPath = path_join DOWNLOADS_DIR fileName;
                    args = download_args outputPath req
                in \<lparr>job = Some jobId,
                    effects =
                      (case js_join '' '' args of
                         None \<Rightarrow> job_failed cannot_convert jobId
                       | Some line \<Rightarrow>
                           let r = spawn e ''yt-dlp'' args
                           in Launch (Spawn ''yt-dlp'' args) #
                              (case settle r of
                                 Inl message \<Rightarrow> job_failed message jobId
                               | Inr u \<Rightarrow>
                                   if \<not> existsSync (disk r) outputPath
                                   then job_failed ''Download completed but file not found'' jobId
                                   else job_done ''Download completed'' req jobId fileName))\<rparr>))"

subsection \<open>\<^verbatim>\<open>POST /api/download-audio\<close>\<close>

definition audio_args :: "string \<Rightarrow> request \<Rightarrow> json list" where
  "audio_args outputPath req =
     [Str ''-x'',
      Str ''--audio-format'', default_to ''mp3'' (body_format req),
      Str ''--audio-quality'', Str ''0'',
      Str ''-o'', Str outputPath,
      Str ''--no-playlist'',
      body_url req]"

definition api_download_audio :: "env \<Rightarrow> request \<Rightarrow> outcome" where
  "api_download_audio e req =
     (if \<not> truthy (body_url req) then url_required
      else
        let jobId = jobId_of ''audio'' e
        in (case to_str (default_to ''mp3'' (body_format req)) of
              None \<Rightarrow> \<lparr>job = Some jobId, effects = [Uncaught cannot_convert]\<rparr>
            | Some format \<Rightarrow>
                let fileName = jobId @ ''.'' @ format;
                    outputPath = path_join DOWNLOADS_DIR fileName;
                    args = audio_args outputPath req
                in \<lparr>job = Some jobId,
                    effects =
                      (case js_join '' '' args of
                         None \<Rightarrow> job_failed cannot_convert jobId
                       | Some line \<Rightarrow>
                           let r = spawn e ''yt-dlp'' args
                           in Launch (Spawn ''yt-dlp'' args) #
                              (case settle r of
                                 Inl message \<Rightarrow> job_failed message jobId
                               | Inr u \<Rightarrow>
                                   if \<not> existsSync (disk r) outputPath
                                   then job_failed ''Download completed but file not found'' jobId
                                   else job_done ''Audio download completed'' req jobId fileName))\<rparr>))"

subsection \<open>\<^verbatim>\<open>POST /api/download-stream\<close>\<close>

definition stream_args :: "env \<Rightarrow> request \<Rightarrow> json list" where
  "stream_args e req =
     (let format = default_to ''mp4'' (body_format req);
          outputTemplate = path_join DOWNLOADS_DIR (jobId_of ''video'' e @ ''.%(ext)s'');
          formatStr = (if format = Str ''mp4''
                       then ''bestvideo[ext=mp4]+bestaudio[ext=m4a]/best[ext=mp4]/best''
                       else ''bestvideo+bestaudio/best'')
      in [Str ''-f'', Str formatStr,
          Str ''--merge-output-format'', format,
          Str ''-o'', Str outputTemplate,
          Str ''--no-playlist'',
          Str ''--newline'',
          body_url req])"

definition stream_run :: "env \<Rightarrow> request \<Rightarrow> run" where
  "stream_run e req = spawn e ''yt-dlp'' (stream_args e req)"

text \<open>
  The listeners the handler registers. Data on stdout is written as a \<^verbatim>\<open>progress\<close> frame and
  data on stderr as a \<^verbatim>\<open>log\<close> frame; no listener is registered for the connection of the
  caller.
\<close>

fun relay :: "event \<Rightarrow> effect list" where
  "relay (StdoutData output) = [Write (Obj [(''type'', Str ''progress''), (''message'', Str output)])]"
| "relay (StderrData output) = [Write (Obj [(''type'', Str ''log''), (''message'', Str output)])]"
| "relay Disconnect = []"

definition stream_files :: "fs \<Rightarrow> string \<Rightarrow> string list" where
  "stream_files d jobId = filter (prefix jobId) (readdirSync d DOWNLOADS_DIR)"

definition on_close :: "request \<Rightarrow> string \<Rightarrow> fs \<Rightarrow> int option \<Rightarrow> effect list" where
  "on_close req jobId d code =
     (if code = Some 0 then
        (let files = stream_files d jobId
         in if length files > 0 then
              (let fileName = hd files
               in [Write (Obj [(''type'', Str ''complete''), (''success'', Bool True),
                               (''fileName'', Str fileName),
                               (''downloadUrl'', Str (downloadUrl_of req fileName))])])
            else [Write (Obj [(''type'', Str ''error''),
                              (''message'', Str ''File not found after download'')])])
      else [Write (Obj [(''type'', Str ''error''),
                        (''message'', Str (''Process exited with code '' @ show_code code))])])
     @ [End]"

text \<open>
  The child process has no \<^verbatim>\<open>error\<close> listener in this handler, so the \<^verbatim>\<open>error\<close> event of a
  failed start is thrown by the emitter and nothing catches it.
\<close>

definition on_ending :: "request \<Rightarrow> string \<Rightarrow> run \<Rightarrow> effect list" where
  "on_ending req jobId r =
     (case ending r of
        CloseEv code \<Rightarrow> on_close req jobId (disk r) code
      | ErrorEv message \<Rightarrow> [Uncaught message])"

definition stream_headers :: "effect list" where
  "stream_headers =
     [SetHeader ''Content-Type'' ''text/event-stream'',
      SetHeader ''Cache-Control'' ''no-cache'',
      SetHeader ''Connection'' ''keep-alive'']"

text \<open>
  \<^verbatim>\<open>spawn\<close> converts every argument to a string. This handler hands it the format and the
  URL unconverted, so when one of them does not convert, \<^verbatim>\<open>spawn\<close> throws the TypeError and
  the handler ends there, after the headers and before any listener is registered; no child
  process object exists then, and no launch is recorded.
\<close>

definition api_download_stream :: "env \<Rightarrow> request \<Rightarrow> outcome" where
  "api_download_stream e req =
     (if \<not> truthy (body_url req) then url_required
      else
        let jobId = jobId_of ''video'' e;
            args = stream_args e req
        in if \<not> list_all convertible args
           then \<lparr>job = Some jobId, effects = stream_headers @ [Fault cannot_convert]\<rparr>
           else
             let r = stream_run e req
             in \<lparr>job = Some jobId,
                 effects = stream_headers @ [Launch (Spawn ''yt-dlp'' args)]
                   @ concat (map relay (events r)) @ on_ending req jobId r\<rparr>)"

section \<open>Stored files\<close>

definition not_found :: "effect list" where
  "not_found = [Status 404, Json (Obj [(''success'', Bool False), (''error'', Str ''File not found'')])]"

text \<open>
  \<^verbatim>\<open>GET /api/file/:filename\<close>. \<open>err\<close> tells whether \<^verbatim>\<open>res.download\<close> reports a failed transfer
  to its callback; for a directory it always does.
\<close>

definition api_file_get :: "fs \<Rightarrow> string \<Rightarrow> bool \<Rightarrow> effect list" where
  "api_file_get d filename err =
     (let filePath = path_join DOWNLOADS_DIR filename
      in if \<not> existsSync d filePath then not_found
         else Download filePath filename #
              (if err \<or> (case lookup d filePath of Some stat \<Rightarrow> isDirectory stat | None \<Rightarrow> False)
               then [Status 500, Json (Obj [(''success'', Bool False),
                                                   (''error'', Str ''Download failed'')])]
               else []))"

text \<open>
  \<^verbatim>\<open>DELETE /api/file/:filename\<close>: what is sent, and the disk afterwards. \<open>t\<close> is the time of
  the removal.
\<close>

definition api_file_delete :: "real \<Rightarrow> fs \<Rightarrow> string \<Rightarrow> effect list \<times> fs" where
  "api_file_delete t d filename =
     (let filePath = path_join DOWNLOADS_DIR filename
      in if \<not> existsSync d filePath then (not_found, d)
         else (case unlinkSync t d filePath of
                 Inr d' \<Rightarrow>
                   ([Json (Obj [(''success'', Bool True),
                                (''message'', Str ''File deleted successfully'')])], d')
               | Inl message \<Rightarrow>
                   ([Status 500, Json (Obj [(''success'', Bool False), (''error'', Str message)])], d)))"

section \<open>Reading what a handler did\<close>

fun launches :: "effect list \<Rightarrow> launch list" where
  "launches [] = []"
| "launches (Launch l # es) = l # launches es"
| "launches (x # es) = launches es"

text \<open>A frame of the event stream is terminal when its type is \<^verbatim>\<open>complete\<close> or \<^verbatim>\<open>error\<close>.\<close>

definition is_terminal :: "json \<Rightarrow> bool" where
  "is_terminal frame = (field frame ''type'' = Str ''complete'' \<or> field frame ''type'' = Str ''error'')"

fun terminal_events :: "effect list \<Rightarrow> json list" where
  "terminal_events [] = []"
| "terminal_events (Write frame # es) =
     (if is_terminal frame then frame # terminal_events es else terminal_events es)"
| "terminal_events (x # es) = terminal_events es"

text \<open>The first object handed to \<^verbatim>\<open>res.json\<close>, and the keys of an object.\<close>

fun sent :: "effect list \<Rightarrow> json" where
  "sent [] = Undefined"
| "sent (Json reply # es) = reply"
| "sent (x # es) = sent es"

fun keys_of :: "json \<Rightarrow> string list" where
  "keys_of (Obj kvs) = map fst kvs"
| "keys_of v = []"

text \<open>A path lies in the File Store when it is below the downloads directory.\<close>

definition in_store :: "string \<Rightarrow> bool" where
  "in_store p = prefix (DOWNLOADS_DIR @ ''/'') p"



section \<open>Sample requests and surroundings\<close>

definition sample_request :: "json \<Rightarrow> request" where
  "sample_request url =
     \<lparr>body_url = url, body_format = Undefined, body_quality = Undefined,
      protocol = ''http'', host = Some ''localhost:3000''\<rparr>"

definition sample_info :: json where
  "sample_info =
     Obj [(''id'', Str ''abc''),
          (''title'', Str ''A video''),
          (''description'', Str ''About the video''),
          (''duration'', Num ''212''),
          (''formats'',
             Arr [Obj [(''format_id'', Str ''18''), (''ext'', Str ''mp4''),
                       (''resolution'', Str ''640x360''), (''filesize'', Num ''1000''),
                       (''url'', Str ''https://cdn.example.com/18'')]])]"

definition sample_env :: "run \<Rightarrow> env" where
  "sample_env r =
     \<lparr>Date_now = 1700000000000, Math_random = ''k3j9x2m1q'',
      spawn = (\<lambda>file args. r),
      execAsync = (\<lambda>cmd. Inr ''{...}''),
      JSON_parse = (\<lambda>payload. Inr sample_info)\<rparr>"

text \<open>The server's directory with nothing stored yet.\<close>

definition empty_store :: fs where
  "empty_store =
     [(''/'', Dir 1400000000000),
      (''/app'', Dir 1500000000000),
      (''/app/server.js'', File 1500000000000),
      (''/app/downloads'', Dir 1500000000000)]"

text \<open>The files of the sample job and the video of a job of long ago.\<close>

definition sample_disk :: fs where
  "sample_disk =
     [(''/'', Dir 1400000000000),
      (''/app'', Dir 1500000000000),
      (''/app/server.js'', File 1500000000000),
      (''/app/downloads'', Dir 1700000055000),
      (''/app/downloads/video_1700000000000_k3j9x2m1q.mp4'', File 1700000050000),
      (''/app/downloads/audio_1700000000000_k3j9x2m1q.mp3'', File 1700000055000),
      (''/app/downloads/video_1600000000000_aaaaaaaaa.mp4'', File 1600000090000)]"

text \<open>A downloads directory in which an old directory is listed before an old video.\<close>

definition cluttered_disk :: fs where
  "cluttered_disk =
     [(''/'', Dir 1400000000000),
      (''/app'', Dir 1500000000000),
      (''/app/server.js'', File 1500000000000),
      (''/app/downloads'', Dir 1600000090000),
      (''/app/downloads/cache'', Dir 1600000000000),
      (''/app/downloads/video_1600000000000_aaaaaaaaa.mp4'', File 1600000090000)]"


text \<open>A run that ends with exit code 0 and leaves the files of the job on the disk.\<close>

definition good_run :: run where
  "good_run =
     \<lparr>events = [StdoutData ''[download] 100%''], ending = CloseEv (Some 0), disk = sample_disk\<rparr>"

text \<open>A run that ends with exit code 0 although it has written nothing.\<close>

definition lost_run :: run where
  "lost_run = \<lparr>events = [], ending = CloseEv (Some 0), disk = empty_store\<rparr>"

text \<open>A request for the format \<^verbatim>\<open>/..\<close>, whose output path is the downloads directory itself.\<close>

definition dotdot_request :: request where
  "dotdot_request =
     \<lparr>body_url = Str ''https://example.com/v'', body_format = Str ''/..'',
      body_quality = Undefined, protocol = ''http'', host = Some ''localhost:3000''\<rparr>"

text \<open>A run that prints a diagnostic on stderr and ends with exit code 1.\<close>

definition failed_run :: run where
  "failed_run =
     \<lparr>events = [StderrData ''ERROR: Unsupported URL''], ending = CloseEv (Some 1),
      disk = sample_disk\<rparr>"

text \<open>The executable is not installed: the start fails and the \<^verbatim>\<open>error\<close> event is emitted.\<close>

definition missing_tool_run :: run where
  "missing_tool_run = \<lparr>events = [], ending = ErrorEv ''spawn yt-dlp ENOENT'', disk = sample_disk\<rparr>"

text \<open>The caller closes the connection while the process is still downloading.\<close>

definition abandoned_run :: run where
  "abandoned_run =
     \<lparr>events = [StdoutData ''[download] 10%'', Disconnect, StdoutData ''[download] 100%''],
      ending = CloseEv (Some 0), disk = sample_disk\<rparr>"

section \<open>Paths, listings and the sweep\<close>

lemma DOWNLOADS_DIR_eq: "DOWNLOADS_DIR = ''/app/downloads''"
  by (simp add: DOWNLOADS_DIR_def path_join_def dirname_def normalize_def)






lemma stored_neq_dir: "dir @ ''/'' @ name \<noteq> dir"
  by simp















lemma parent_evals:
  "parent ''/app'' = ''/''" "parent ''/app/server.js'' = ''/app''" "parent ''/app/downloads'' = ''/app''"
  "parent ''/app/downloads/video_1700000000000_k3j9x2m1q.mp4'' = ''/app/downloads''"
  "parent ''/app/downloads/audio_1700000000000_k3j9x2m1q.mp3'' = ''/app/downloads''"
  "parent ''/app/downloads/video_1600000000000_aaaaaaaaa.mp4'' = ''/app/downloads''"
  "parent ''/app/downloads/cache'' = ''/app/downloads''"
  by (simp_all add: parent_def path_join_def normalize_def)




lemma sample_listing:
  "readdirSync sample_disk DOWNLOADS_DIR
      = [''video_1700000000000_k3j9x2m1q.mp4'', ''audio_1700000000000_k3j9x2m1q.mp3'',
         ''video_1600000000000_aaaaaaaaa.mp4'']"
  "readdirSync cluttered_disk DOWNLOADS_DIR = [''cache'', ''video_1600000000000_aaaaaaaaa.mp4'']"
  "readdirSync empty_store DOWNLOADS_DIR = []"
  by (simp_all add: readdirSync_def sample_disk_def cluttered_disk_def empty_store_def
      entry_name_def DOWNLOADS_DIR_eq)



section \<open>Launching the external tool\<close>

lemma launches_append: "launches (xs @ ys) = launches xs @ launches ys"
  by (induction xs rule: launches.induct) simp_all

lemma launches_relay: "launches (concat (map relay evs)) = []"
proof (induction evs)
  case Nil
  then show ?case by simp
next
  case (Cons ev evs)
  then show ?case by (cases ev) (simp_all add: launches_append)
qed

lemma launches_on_ending: "launches (on_ending req jobId r) = []"
  by (cases "ending r") (simp_all add: on_ending_def on_close_def Let_def launches_append)

lemma launches_replies:
  "launches (job_failed message jobId) = []" "launches (job_done message req jobId fileName) = []"
  "launches (effects url_required) = []" "launches (info_failed message) = []"
  by (simp_all add: job_failed_def job_done_def url_required_def info_failed_def)

text \<open>What the video handler has done when it has launched the tool.\<close>

lemma api_download_launched:
  assumes "launches (effects (api_download e req)) = [Spawn ''yt-dlp'' args]"
  shows "\<exists>format. truthy (body_url req)
      \<and> to_str (default_to ''mp4'' (body_format req)) = Some format
      \<and> args = download_args (path_join DOWNLOADS_DIR (jobId_of ''video'' e @ ''.'' @ format)) req
      \<and> job (api_download e req) = Some (jobId_of ''video'' e)
      \<and> effects (api_download e req) =
          Launch (Spawn ''yt-dlp'' args) #
          (case settle (spawn e ''yt-dlp'' args) of
             Inl message \<Rightarrow> job_failed message (jobId_of ''video'' e)
           | Inr u \<Rightarrow>
               if \<not> existsSync (disk (spawn e ''yt-dlp'' args))
                     (path_join DOWNLOADS_DIR (jobId_of ''video'' e @ ''.'' @ format))
               then job_failed ''Download completed but file not found'' (jobId_of ''video'' e)
               else job_done ''Download completed'' req (jobId_of ''video'' e)
                      (jobId_of ''video'' e @ ''.'' @ format))"
proof -
  have t: "truthy (body_url req)"
    using assms by (auto simp: api_download_def launches_replies split: if_splits)
  obtain format where f: "to_str (default_to ''mp4'' (body_format req)) = Some format"
    using assms t by (cases "to_str (default_to ''mp4'' (body_format req))")
      (auto simp: api_download_def Let_def)
  let ?path = "path_join DOWNLOADS_DIR (jobId_of ''video'' e @ ''.'' @ format)"
  obtain line where j: "js_join '' '' (download_args ?path req) = Some line"
    using assms t f by (cases "js_join '' '' (download_args ?path req)")
      (auto simp: api_download_def Let_def launches_replies)
  have a: "args = download_args ?path req"
    using assms t f j
    by (auto simp: api_download_def Let_def launches_replies split: sum.splits if_splits)
  show ?thesis
    using t f j a by (simp add: api_download_def Let_def split: sum.splits)
qed

lemma api_download_audio_launched:
  assumes "launches (effects (api_download_audio e req)) = [Spawn ''yt-dlp'' args]"
  shows "\<exists>format. truthy (body_url req)
      \<and> to_str (default_to ''mp3'' (body_format req)) = Some format
      \<and> args = audio_args (path_join DOWNLOADS_DIR (jobId_of ''audio'' e @ ''.'' @ format)) req
      \<and> job (api_download_audio e req) = Some (jobId_of ''audio'' e)
      \<and> effects (api_download_audio e req) =
          Launch (Spawn ''yt-dlp'' args) #
          (case settle (spawn e ''yt-dlp'' args) of
             Inl message \<Rightarrow> job_failed message (jobId_of ''audio'' e)
           | Inr u \<Rightarrow>
               if \<not> existsSync (disk (spawn e ''yt-dlp'' args))
                     (path_join DOWNLOADS_DIR (jobId_of ''audio'' e @ ''.'' @ format))
               then job_failed ''Download completed but file not found'' (jobId_of ''audio'' e)
               else job_done ''Audio download completed'' req (jobId_of ''audio'' e)
                      (jobId_of ''audio'' e @ ''.'' @ format))"
proof -
  have t: "truthy (body_url req)"
    using assms by (auto simp: api_download_audio_def launches_replies split: if_splits)
  obtain format where f: "to_str (default_to ''mp3'' (body_format req)) = Some format"
    using assms t by (cases "to_str (default_to ''mp3'' (body_format req))")
      (auto simp: api_download_audio_def Let_def)
  let ?path = "path_join DOWNLOADS_DIR (jobId_of ''audio'' e @ ''.'' @ format)"
  obtain line where j: "js_join '' '' (audio_args ?path req) = Some line"
    using assms t f by (cases "js_join '' '' (audio_args ?path req)")
      (auto simp: api_download_audio_def Let_def launches_replies)
  have a: "args = audio_args ?path req"
    using assms t f j
    by (auto simp: api_download_audio_def Let_def launches_replies split: sum.splits if_splits)
  show ?thesis
    using t f j a by (simp add: api_download_audio_def Let_def split: sum.splits)
qed

lemma api_download_stream_launched:
  assumes "launches (effects (api_download_stream e req)) = [Spawn ''yt-dlp'' args]"
  shows "truthy (body_url req) \<and> list_all convertible args \<and> args = stream_args e req
      \<and> job (api_download_stream e req) = Some (jobId_of ''video'' e)
      \<and> effects (api_download_stream e req) =
          stream_headers @ [Launch (Spawn ''yt-dlp'' args)]
          @ concat (map relay (events (spawn e ''yt-dlp'' args)))
          @ on_ending req (jobId_of ''video'' e) (spawn e ''yt-dlp'' args)"
proof -
  have t: "truthy (body_url req)"
    using assms by (auto simp: api_download_stream_def launches_replies split: if_splits)
  have c: "list_all convertible (stream_args e req)"
    using assms t
    by (auto simp: api_download_stream_def Let_def stream_headers_def split: if_splits)
  have a: "args = stream_args e req"
    using assms t c
    by (simp add: api_download_stream_def Let_def stream_headers_def launches_append
        launches_relay launches_on_ending)
  show ?thesis using t a c by (simp add: api_download_stream_def Let_def stream_run_def)
qed

text \<open>Every launch of the three download handlers has the URL as the last argument.\<close>

lemma download_handlers_spawn:
  "\<forall>l \<in> set (launches (effects (api_download e req))).
      \<exists>args. l = Spawn ''yt-dlp'' args \<and> last args = body_url req"
  "\<forall>l \<in> set (launches (effects (api_download_audio e req))).
      \<exists>args. l = Spawn ''yt-dlp'' args \<and> last args = body_url req"
  "\<forall>l \<in> set (launches (effects (api_download_stream e req))).
      \<exists>args. l = Spawn ''yt-dlp'' args \<and> last args = body_url req"
  by (auto simp: api_download_def api_download_audio_def api_download_stream_def Let_def
      launches_replies launches_append launches_relay launches_on_ending stream_headers_def
      download_args_def audio_args_def stream_args_def
      split: option.splits sum.splits if_splits)

text \<open>
  Claim C1 asks that every submission hands the caller's URL to the tool as one literal
  element of an argument vector, with no shell in between. The three download handlers
  do so (\<open>download_handlers_spawn\<close>). The information query does not: for the URL
  \<^verbatim>\<open>$(touch /tmp/pwned)\<close> its only launch is an \<^verbatim>\<open>exec\<close> of a command line into which the URL
  has been pasted between double quotes, where the shell still performs the command
  substitution.
\<close>

theorem api_info_launches_shell:
  "launches (effects (api_info e (sample_request (Str ''$(touch /tmp/pwned)'')))) =
     [Exec (''yt-dlp --dump-json '' @ [CHR 0x22] @ ''$(touch /tmp/pwned)'' @ [CHR 0x22])]"
  by (simp add: api_info_def sample_request_def info_cmd_def info_failed_def Let_def
      split: sum.splits)

section \<open>Validation\<close>

lemma falsy_url_rejected:
  assumes "\<not> truthy (body_url req)"
  shows "api_info e req = url_required" "api_download e req = url_required"
    "api_download_audio e req = url_required" "api_download_stream e req = url_required"
  using assms
  by (simp_all add: api_info_def api_download_def api_download_audio_def api_download_stream_def)

text \<open>
  Claim C5. When the URL of a submission is missing or the empty string, each of the four
  submission handlers answers with status 400 and the body
  \<^verbatim>\<open>{success: false, error: 'URL is required'}\<close> and does nothing else: no process is
  launched and no job identifier is made.
\<close>

theorem missing_url_rejected:
  assumes "body_url req = Undefined \<or> body_url req = Str []"
  shows "api_info e req = url_required
       \<and> api_download e req = url_required
       \<and> api_download_audio e req = url_required
       \<and> api_download_stream e req = url_required
       \<and> effects url_required =
           [Status 400, Json (Obj [(''success'', Bool False), (''error'', Str ''URL is required'')])]
       \<and> launches (effects url_required) = []
       \<and> job url_required = None"
proof -
  from assms have "\<not> truthy (body_url req)" by auto
  then show ?thesis by (simp add: falsy_url_rejected) (simp add: url_required_def)
qed

text \<open>The four handlers on a request whose URL is the empty string.\<close>

theorem missing_url_rejected_witness:
  "body_url (sample_request (Str [])) = Str []
   \<and> api_info (sample_env good_run) (sample_request (Str [])) = url_required
   \<and> api_download (sample_env good_run) (sample_request (Str [])) = url_required
   \<and> api_download_audio (sample_env good_run) (sample_request (Str [])) = url_required
   \<and> api_download_stream (sample_env good_run) (sample_request (Str [])) = url_required
   \<and> launches (effects url_required) = []
   \<and> job url_required = None"
proof -
  have h: "body_url (sample_request (Str [])) = Undefined \<or> body_url (sample_request (Str [])) = Str []"
    by (simp add: sample_request_def)
  show ?thesis
    using missing_url_rejected [OF h, of "sample_env good_run"]
    by (simp add: sample_request_def)
qed

section \<open>Paths that leave the File Store\<close>

text \<open>
  Claim C10. The retrieval and the deletion of a stored file join the name from the route
  to the downloads directory and use the result unchecked. For the name \<^verbatim>\<open>../server.js\<close> the
  joined path is \<^verbatim>\<open>/app/server.js\<close>, outside the downloads directory: the retrieval sends that
  file and the deletion removes it from the disk.
\<close>

theorem file_routes_leave_store:
  "path_join DOWNLOADS_DIR ''../server.js'' = ''/app/server.js''
   \<and> existsSync sample_disk ''/app/server.js''
   \<and> \<not> in_store ''/app/server.js''
   \<and> api_file_get sample_disk ''../server.js'' False = [Download ''/app/server.js'' ''../server.js'']
   \<and> api_file_delete 1700000070000 sample_disk ''../server.js'' =
       ([Json (Obj [(''success'', Bool True), (''message'', Str ''File deleted successfully'')])],
        [(''/'', Dir 1400000000000),
         (''/app'', Dir 1700000070000),
         (''/app/downloads'', Dir 1700000055000),
         (''/app/downloads/video_1700000000000_k3j9x2m1q.mp4'', File 1700000050000),
         (''/app/downloads/audio_1700000000000_k3j9x2m1q.mp3'', File 1700000055000),
         (''/app/downloads/video_1600000000000_aaaaaaaaa.mp4'', File 1600000090000)])"
proof -
  have pj: "path_join DOWNLOADS_DIR ''../server.js'' = ''/app/server.js''"
    by (simp add: path_join_def DOWNLOADS_DIR_eq normalize_def)
  have lk: "lookup sample_disk ''/app/server.js'' = Some (File 1500000000000)"
    by (simp add: lookup_def sample_disk_def)
  have ex: "existsSync sample_disk ''/app/server.js''"
    by (simp add: existsSync_def lk)
  have out: "\<not> in_store ''/app/server.js''"
    by (simp add: in_store_def DOWNLOADS_DIR_eq)
  have g: "api_file_get sample_disk ''../server.js'' False = [Download ''/app/server.js'' ''../server.js'']"
    by (simp add: api_file_get_def pj ex lk)
  have d: "api_file_delete 1700000070000 sample_disk ''../server.js'' =
       ([Json (Obj [(''success'', Bool True), (''message'', Str ''File deleted successfully'')])],
        [(''/'', Dir 1400000000000),
         (''/app'', Dir 1700000070000),
         (''/app/downloads'', Dir 1700000055000),
         (''/app/downloads/video_1700000000000_k3j9x2m1q.mp4'', File 1700000050000),
         (''/app/downloads/audio_1700000000000_k3j9x2m1q.mp3'', File 1700000055000),
         (''/app/downloads/video_1600000000000_aaaaaaaaa.mp4'', File 1600000090000)])"
    by (simp add: api_file_delete_def pj ex unlinkSync_def lk parent_evals)
      (simp add: sample_disk_def touch_def)
  from pj ex out g d show ?thesis by blast
qed

section \<open>The event stream\<close>

lemma terminal_events_append:
  "terminal_events (xs @ ys) = terminal_events xs @ terminal_events ys"
  by (induction xs rule: terminal_events.induct) simp_all

lemma relay_not_terminal: "terminal_events (relay ev) = []"
  by (cases ev) (simp_all add: is_terminal_def)

lemma relay_no_end: "End \<notin> set (relay ev)"
  by (cases ev) simp_all

lemma relay_no_kill: "Kill \<notin> set (relay ev)"
  by (cases ev) simp_all

lemma relay_plain:
  "terminal_events (concat (map relay evs)) = []"
  "End \<notin> set (concat (map relay evs))"
  "Kill \<notin> set (concat (map relay evs))"
  by (induction evs)
    (simp_all add: terminal_events_append relay_not_terminal relay_no_end relay_no_kill)

lemma on_close_terminal:
  "\<exists>t. on_close req jobId d code = [Write t, End] \<and> is_terminal t"
  by (simp add: on_close_def Let_def is_terminal_def)

lemma stream_close_one_terminal:
  assumes "launches (effects (api_download_stream e req)) = [Spawn ''yt-dlp'' args]"
    and "ending (spawn e ''yt-dlp'' args) = CloseEv code"
  shows "\<exists>pre t. effects (api_download_stream e req) = pre @ [Write t, End]
      \<and> is_terminal t \<and> terminal_events pre = [] \<and> End \<notin> set pre"
proof -
  let ?pre = "stream_headers @ [Launch (Spawn ''yt-dlp'' args)]
      @ concat (map relay (events (spawn e ''yt-dlp'' args)))"
  obtain t where t: "on_close req (jobId_of ''video'' e) (disk (spawn e ''yt-dlp'' args)) code
      = [Write t, End]"
    and fin: "is_terminal t"
    using on_close_terminal by blast
  have "effects (api_download_stream e req) = ?pre @ [Write t, End]"
    using api_download_stream_launched [OF assms(1)] assms(2) t by (simp add: on_ending_def)
  moreover have "terminal_events ?pre = []"
    by (simp add: terminal_events_append relay_plain stream_headers_def)
  moreover have "End \<notin> set ?pre"
    by (simp add: relay_no_end stream_headers_def)
  ultimately show ?thesis using fin by blast
qed

lemma download_reports_failed_start:
  assumes "launches (effects (api_download e req)) = [Spawn ''yt-dlp'' args]"
    and "ending (spawn e ''yt-dlp'' args) = ErrorEv message"
  shows "effects (api_download e req) =
      [Launch (Spawn ''yt-dlp'' args), Status 500,
       Json (Obj [(''success'', Bool False), (''error'', Str message),
                  (''jobId'', Str (jobId_of ''video'' e))])]"
  using api_download_launched [OF assms(1)] assms(2)
  by (auto simp: settle_def job_failed_def)

lemma sample_jobId: "jobId_of ''video'' (sample_env r) = ''video_1700000000000_k3j9x2m1q''"
  by (simp add: jobId_of_def sample_env_def show_nat.simps digit_def)

lemma sample_audio_jobId: "jobId_of ''audio'' (sample_env r) = ''audio_1700000000000_k3j9x2m1q''"
  by (simp add: jobId_of_def sample_env_def show_nat.simps digit_def)

lemma sample_stream_args:
  "stream_args (sample_env r) (sample_request (Str u)) =
     [Str ''-f'', Str ''bestvideo[ext=mp4]+bestaudio[ext=m4a]/best[ext=mp4]/best'',
      Str ''--merge-output-format'', Str ''mp4'',
      Str ''-o'', Str ''/app/downloads/video_1700000000000_k3j9x2m1q.%(ext)s'',
      Str ''--no-playlist'', Str ''--newline'', Str u]"
  by (simp add: stream_args_def sample_request_def default_to_def sample_jobId Let_def
      path_join_def DOWNLOADS_DIR_eq normalize_def)

lemma sample_runs:
  "spawn (sample_env r) file args = r" "stream_run (sample_env r) req = r"
  by (simp_all add: stream_run_def sample_env_def)

lemma sample_stream_effects:
  "u \<noteq> [] \<Longrightarrow> effects (api_download_stream (sample_env r) (sample_request (Str u))) =
     stream_headers @ [Launch (Spawn ''yt-dlp'' (stream_args (sample_env r) (sample_request (Str u))))]
       @ concat (map relay (events r))
       @ on_ending (sample_request (Str u)) ''video_1700000000000_k3j9x2m1q'' r"
proof -
  assume u: "u \<noteq> []"
  have t: "truthy (body_url (sample_request (Str u)))" using u by (simp add: sample_request_def)
  have c: "list_all convertible (stream_args (sample_env r) (sample_request (Str u)))"
    by (simp add: sample_stream_args convertible_def)
  show ?thesis using t c by (simp add: api_download_stream_def Let_def sample_runs sample_jobId)
qed

lemma sample_stream_files:
  "stream_files sample_disk ''video_1700000000000_k3j9x2m1q'' = [''video_1700000000000_k3j9x2m1q.mp4'']"
  by (simp add: stream_files_def sample_listing)

text \<open>
  Claim C4 asks for exactly one terminal event, last in the stream, followed by the end of
  the stream, for every streaming job. That holds whenever the process closes
  (\<open>stream_close_one_terminal\<close>). It fails when the process cannot be started: the two
  other download handlers listen for \<^verbatim>\<open>error\<close> and report it (\<open>download_reports_failed_start\<close>),
  the streaming handler does not, so with the executable missing the stream carries no
  terminal event and is never ended.
\<close>

theorem stream_failed_start_no_terminal:
  "effects (api_download_stream (sample_env missing_tool_run) (sample_request (Str ''https://example.com/v'')))
     = stream_headers
       @ [Launch (Spawn ''yt-dlp''
            (stream_args (sample_env missing_tool_run) (sample_request (Str ''https://example.com/v'')))),
          Uncaught ''spawn yt-dlp ENOENT'']
   \<and> terminal_events (effects (api_download_stream (sample_env missing_tool_run)
         (sample_request (Str ''https://example.com/v'')))) = []
   \<and> End \<notin> set (effects (api_download_stream (sample_env missing_tool_run)
         (sample_request (Str ''https://example.com/v''))))"
proof -
  have eff: "effects (api_download_stream (sample_env missing_tool_run) (sample_request (Str ''https://example.com/v'')))
     = stream_headers
       @ [Launch (Spawn ''yt-dlp''
            (stream_args (sample_env missing_tool_run) (sample_request (Str ''https://example.com/v'')))),
          Uncaught ''spawn yt-dlp ENOENT'']"
    by (simp add: sample_stream_effects on_ending_def missing_tool_run_def)
  show ?thesis unfolding eff by (simp add: stream_headers_def terminal_events_append)
qed

text \<open>
  Claim C9, as the code has it. The streaming handler never ends the child process, and
  the caller closing the connection is not observed: the handler does the same with and
  without the disconnects among the events of the run.
\<close>

theorem stream_never_kills:
  "Kill \<notin> set (effects (api_download_stream e req))
   \<and> api_download_stream
       (e\<lparr>spawn := \<lambda>file args. (spawn e file args)
            \<lparr>events := filter (\<lambda>ev. ev \<noteq> Disconnect) (events (spawn e file args))\<rparr>\<rparr>) req
     = api_download_stream e req"
proof -
  have k: "Kill \<notin> set (effects (api_download_stream e req))"
    by (cases "ending (stream_run e req)")
      (simp_all add: api_download_stream_def url_required_def Let_def stream_headers_def
        relay_no_kill on_ending_def on_close_def)
  have f: "concat (map relay (filter (\<lambda>ev. ev \<noteq> Disconnect) evs)) = concat (map relay evs)" for evs
    by (induction evs) auto
  let ?g = "\<lambda>file args. (spawn e file args)
            \<lparr>events := filter (\<lambda>ev. ev \<noteq> Disconnect) (events (spawn e file args))\<rparr>"
  have a: "stream_args (e\<lparr>spawn := ?g\<rparr>) req = stream_args e req"
    by (simp add: stream_args_def jobId_of_def)
  have j: "jobId_of ''video'' (e\<lparr>spawn := ?g\<rparr>) = jobId_of ''video'' e"
    by (simp add: jobId_of_def)
  have r: "stream_run (e\<lparr>spawn := ?g\<rparr>) req
      = (stream_run e req)\<lparr>events := filter (\<lambda>ev. ev \<noteq> Disconnect) (events (stream_run e req))\<rparr>"
    by (simp add: stream_run_def a)
  have o: "on_ending req jobId (r\<lparr>events := evs\<rparr>) = on_ending req jobId r" for jobId r evs
    by (simp add: on_ending_def split: ending.splits)
  have "api_download_stream (e\<lparr>spawn := ?g\<rparr>) req = api_download_stream e req"
    unfolding api_download_stream_def j a r by (simp add: Let_def o f)
  with k show ?thesis by blast
qed

text \<open>
  Against claim C9 as stated: the caller disconnects after the first progress line, before
  any terminal event. The process is not ended; its later output and the terminal event
  are still written.
\<close>

theorem disconnect_not_observed:
  "Disconnect \<in> set (events abandoned_run)
   \<and> Kill \<notin> set (effects (api_download_stream (sample_env abandoned_run)
        (sample_request (Str ''https://example.com/v''))))
   \<and> effects (api_download_stream (sample_env abandoned_run) (sample_request (Str ''https://example.com/v'')))
     = stream_headers
       @ [Launch (Spawn ''yt-dlp''
            (stream_args (sample_env abandoned_run) (sample_request (Str ''https://example.com/v'')))),
          Write (Obj [(''type'', Str ''progress''), (''message'', Str ''[download] 10%'')]),
          Write (Obj [(''type'', Str ''progress''), (''message'', Str ''[download] 100%'')]),
          Write (Obj [(''type'', Str ''complete''), (''success'', Bool True),
                      (''fileName'', Str ''video_1700000000000_k3j9x2m1q.mp4''),
                      (''downloadUrl'',
                       Str ''http://localhost:3000/api/file/video_1700000000000_k3j9x2m1q.mp4'')]),
          End]"
proof -
  have eff: "effects (api_download_stream (sample_env abandoned_run) (sample_request (Str ''https://example.com/v'')))
     = stream_headers
       @ [Launch (Spawn ''yt-dlp''
            (stream_args (sample_env abandoned_run) (sample_request (Str ''https://example.com/v'')))),
          Write (Obj [(''type'', Str ''progress''), (''message'', Str ''[download] 10%'')]),
          Write (Obj [(''type'', Str ''progress''), (''message'', Str ''[download] 100%'')]),
          Write (Obj [(''type'', Str ''complete''), (''success'', Bool True),
                      (''fileName'', Str ''video_1700000000000_k3j9x2m1q.mp4''),
                      (''downloadUrl'',
                       Str ''http://localhost:3000/api/file/video_1700000000000_k3j9x2m1q.mp4'')]),
          End]"
    by (simp add: sample_stream_effects [unfolded sample_request_def] on_ending_def on_close_def
        Let_def sample_stream_files downloadUrl_of_def sample_request_def abandoned_run_def)
  have d: "Disconnect \<in> set (events abandoned_run)" by (simp add: abandoned_run_def)
  show ?thesis unfolding eff using d by (simp add: stream_headers_def)
qed

section \<open>Outcome of a download job\<close>





lemma sample_video_path:
  "path_join DOWNLOADS_DIR ''video_1700000000000_k3j9x2m1q.mp4''
     = ''/app/downloads/video_1700000000000_k3j9x2m1q.mp4''"
  "path_join DOWNLOADS_DIR ''audio_1700000000000_k3j9x2m1q.mp3''
     = ''/app/downloads/audio_1700000000000_k3j9x2m1q.mp3''"
  "path_join DOWNLOADS_DIR ''video_1700000000000_k3j9x2m1q./..'' = ''/app/downloads''"
  by (simp_all add: path_join_def DOWNLOADS_DIR_eq normalize_def)

lemma sample_download_args:
  "download_args p (sample_request (Str u)) =
     [Str ''-f'', Str ''bestvideo[ext=mp4]+bestaudio[ext=m4a]/best[ext=mp4]/best'',
      Str ''--merge-output-format'', Str ''mp4'', Str ''-o'', Str p, Str ''--no-playlist'', Str u]"
  "audio_args p (sample_request (Str u)) =
     [Str ''-x'', Str ''--audio-format'', Str ''mp3'', Str ''--audio-quality'', Str ''0'',
      Str ''-o'', Str p, Str ''--no-playlist'', Str u]"
  "download_args p dotdot_request =
     [Str ''-f'', Str ''bestvideo+bestaudio/best'',
      Str ''--merge-output-format'', Str ''/..'', Str ''-o'', Str p, Str ''--no-playlist'',
      Str ''https://example.com/v'']"
  by (simp_all add: download_args_def audio_args_def sample_request_def dotdot_request_def
      default_to_def formatStr_of_def Let_def)

lemma js_join_strings: "js_join sep (map Str xs) \<noteq> None"
  by (induction xs) (auto simp: js_join_def)

lemma sample_joins:
  "js_join '' '' (download_args p (sample_request (Str u))) \<noteq> None"
  "js_join '' '' (audio_args p (sample_request (Str u))) \<noteq> None"
  "js_join '' '' (download_args p dotdot_request) \<noteq> None"
  by (simp_all add: sample_download_args js_join_def)

lemma sample_exists:
  "existsSync sample_disk ''/app/downloads/video_1700000000000_k3j9x2m1q.mp4''"
  "existsSync sample_disk ''/app/downloads/audio_1700000000000_k3j9x2m1q.mp3''"
  "\<not> existsSync empty_store ''/app/downloads/video_1700000000000_k3j9x2m1q.mp4''"
  "\<not> existsSync empty_store ''/app/downloads/audio_1700000000000_k3j9x2m1q.mp3''"
  "existsSync empty_store ''/app/downloads''"
  by (simp_all add: existsSync_def lookup_def sample_disk_def empty_store_def)

lemma sample_formats:
  "to_str (default_to ''mp4'' (body_format (sample_request u))) = Some ''mp4''"
  "to_str (default_to ''mp3'' (body_format (sample_request u))) = Some ''mp3''"
  "to_str (default_to ''mp4'' (body_format dotdot_request)) = Some ''/..''"
  "truthy (body_url (sample_request (Str ''https://example.com/v'')))"
  "truthy (body_url dotdot_request)"
  by (simp_all add: sample_request_def dotdot_request_def default_to_def)

lemma sample_run_facts:
  "ending good_run = CloseEv (Some 0)" "disk good_run = sample_disk"
  "events good_run = [StdoutData ''[download] 100%'']"
  "ending lost_run = CloseEv (Some 0)" "disk lost_run = empty_store" "events lost_run = []"
  "ending failed_run = CloseEv (Some 1)" "disk failed_run = sample_disk"
  "events failed_run = [StderrData ''ERROR: Unsupported URL'']"
  by (simp_all add: good_run_def lost_run_def failed_run_def)

lemma sample_urls:
  "downloadUrl_of (sample_request u) f = ''http://localhost:3000/api/file/'' @ f"
  "downloadUrl_of dotdot_request f = ''http://localhost:3000/api/file/'' @ f"
  by (simp_all add: downloadUrl_of_def sample_request_def dotdot_request_def)

text \<open>The video and the audio handler on a sample request, for any run of the tool.\<close>

lemma sample_download:
  "effects (api_download (sample_env r) (sample_request (Str ''https://example.com/v''))) =
     Launch (Spawn ''yt-dlp''
        [Str ''-f'', Str ''bestvideo[ext=mp4]+bestaudio[ext=m4a]/best[ext=mp4]/best'',
         Str ''--merge-output-format'', Str ''mp4'',
         Str ''-o'', Str ''/app/downloads/video_1700000000000_k3j9x2m1q.mp4'',
         Str ''--no-playlist'', Str ''https://example.com/v'']) #
     (case settle r of
        Inl message \<Rightarrow> job_failed message ''video_1700000000000_k3j9x2m1q''
      | Inr u \<Rightarrow>
          if \<not> existsSync (disk r) ''/app/downloads/video_1700000000000_k3j9x2m1q.mp4''
          then job_failed ''Download completed but file not found'' ''video_1700000000000_k3j9x2m1q''
          else job_done ''Download completed'' (sample_request (Str ''https://example.com/v''))
                 ''video_1700000000000_k3j9x2m1q'' ''video_1700000000000_k3j9x2m1q.mp4'')"
  by (simp add: api_download_def Let_def sample_jobId sample_formats sample_video_path sample_runs
      sample_download_args js_join_def split: sum.splits)

lemma sample_download_audio:
  "effects (api_download_audio (sample_env r) (sample_request (Str ''https://example.com/v''))) =
     Launch (Spawn ''yt-dlp''
        [Str ''-x'', Str ''--audio-format'', Str ''mp3'', Str ''--audio-quality'', Str ''0'',
         Str ''-o'', Str ''/app/downloads/audio_1700000000000_k3j9x2m1q.mp3'',
         Str ''--no-playlist'', Str ''https://example.com/v'']) #
     (case settle r of
        Inl message \<Rightarrow> job_failed message ''audio_1700000000000_k3j9x2m1q''
      | Inr u \<Rightarrow>
          if \<not> existsSync (disk r) ''/app/downloads/audio_1700000000000_k3j9x2m1q.mp3''
          then job_failed ''Download completed but file not found'' ''audio_1700000000000_k3j9x2m1q''
          else job_done ''Audio download completed'' (sample_request (Str ''https://example.com/v''))
                 ''audio_1700000000000_k3j9x2m1q'' ''audio_1700000000000_k3j9x2m1q.mp3'')"
  by (simp add: api_download_audio_def Let_def sample_audio_jobId sample_formats sample_video_path sample_runs
      sample_download_args js_join_def split: sum.splits)


lemma settle_zero: "ending r = CloseEv (Some 0) \<Longrightarrow> settle r = Inr ()"
  by (simp add: settle_def)



lemma settle_nonzero:
  "ending r = CloseEv code \<Longrightarrow> code \<noteq> Some 0 \<Longrightarrow>
     settle r = Inl (if stderr_of (events r) \<noteq> [] then stderr_of (events r)
                     else ''Process exited with code '' @ show_code code)"
  by (simp add: settle_def Let_def)

text \<open>
  Claim C3, as the code has it. When the process that a job has launched closes with a
  code other than 0 (null when a signal ended it), the video and the audio handler reply
  with status 500 and the accumulated stderr text, or with \<^verbatim>\<open>Process exited with code N\<close>
  when nothing was written to stderr. The streaming handler accumulates nothing: its
  terminal \<^verbatim>\<open>error\<close> frame always carries \<^verbatim>\<open>Process exited with code N\<close>, after the stderr
  data has been written as \<^verbatim>\<open>log\<close> frames.
\<close>

theorem nonzero_exit_reports_failure:
  "(\<forall>args code. launches (effects (api_download e req)) = [Spawn ''yt-dlp'' args]
        \<and> ending (spawn e ''yt-dlp'' args) = CloseEv code \<and> code \<noteq> Some 0 \<longrightarrow>
      effects (api_download e req) =
        [Launch (Spawn ''yt-dlp'' args),
         Status 500,
         Json (Obj [(''success'', Bool False),
                    (''error'',
                     Str (if stderr_of (events (spawn e ''yt-dlp'' args)) \<noteq> []
                          then stderr_of (events (spawn e ''yt-dlp'' args))
                          else ''Process exited with code '' @ show_code code)),
                    (''jobId'', Str (jobId_of ''video'' e))])])
   \<and> (\<forall>args code. launches (effects (api_download_audio e req)) = [Spawn ''yt-dlp'' args]
        \<and> ending (spawn e ''yt-dlp'' args) = CloseEv code \<and> code \<noteq> Some 0 \<longrightarrow>
      effects (api_download_audio e req) =
        [Launch (Spawn ''yt-dlp'' args),
         Status 500,
         Json (Obj [(''success'', Bool False),
                    (''error'',
                     Str (if stderr_of (events (spawn e ''yt-dlp'' args)) \<noteq> []
                          then stderr_of (events (spawn e ''yt-dlp'' args))
                          else ''Process exited with code '' @ show_code code)),
                    (''jobId'', Str (jobId_of ''audio'' e))])])
   \<and> (\<forall>args code. launches (effects (api_download_stream e req)) = [Spawn ''yt-dlp'' args]
        \<and> ending (spawn e ''yt-dlp'' args) = CloseEv code \<and> code \<noteq> Some 0 \<longrightarrow>
      effects (api_download_stream e req) =
        stream_headers @ [Launch (Spawn ''yt-dlp'' args)]
        @ concat (map relay (events (spawn e ''yt-dlp'' args)))
        @ [Write (Obj [(''type'', Str ''error''),
                       (''message'', Str (''Process exited with code '' @ show_code code))]),
           End])"
proof (intro conjI allI impI)
  fix args code
  assume a: "launches (effects (api_download e req)) = [Spawn ''yt-dlp'' args]
        \<and> ending (spawn e ''yt-dlp'' args) = CloseEv code \<and> code \<noteq> Some 0"
  then have "settle (spawn e ''yt-dlp'' args) =
      Inl (if stderr_of (events (spawn e ''yt-dlp'' args)) \<noteq> []
           then stderr_of (events (spawn e ''yt-dlp'' args))
           else ''Process exited with code '' @ show_code code)"
    by (simp add: settle_nonzero)
  with a api_download_launched [of e req args] show
    "effects (api_download e req) =
        [Launch (Spawn ''yt-dlp'' args),
         Status 500,
         Json (Obj [(''success'', Bool False),
                    (''error'',
                     Str (if stderr_of (events (spawn e ''yt-dlp'' args)) \<noteq> []
                          then stderr_of (events (spawn e ''yt-dlp'' args))
                          else ''Process exited with code '' @ show_code code)),
                    (''jobId'', Str (jobId_of ''video'' e))])]"
    by (auto simp: job_failed_def)
next
  fix args code
  assume a: "launches (effects (api_download_audio e req)) = [Spawn ''yt-dlp'' args]
        \<and> ending (spawn e ''yt-dlp'' args) = CloseEv code \<and> code \<noteq> Some 0"
  then have "settle (spawn e ''yt-dlp'' args) =
      Inl (if stderr_of (events (spawn e ''yt-dlp'' args)) \<noteq> []
           then stderr_of (events (spawn e ''yt-dlp'' args))
           else ''Process exited with code '' @ show_code code)"
    by (simp add: settle_nonzero)
  with a api_download_audio_launched [of e req args] show
    "effects (api_download_audio e req) =
        [Launch (Spawn ''yt-dlp'' args),
         Status 500,
         Json (Obj [(''success'', Bool False),
                    (''error'',
                     Str (if stderr_of (events (spawn e ''yt-dlp'' args)) \<noteq> []
                          then stderr_of (events (spawn e ''yt-dlp'' args))
                          else ''Process exited with code '' @ show_code code)),
                    (''jobId'', Str (jobId_of ''audio'' e))])]"
    by (auto simp: job_failed_def)
next
  fix args code
  assume a: "launches (effects (api_download_stream e req)) = [Spawn ''yt-dlp'' args]
        \<and> ending (spawn e ''yt-dlp'' args) = CloseEv code \<and> code \<noteq> Some 0"
  with api_download_stream_launched [of e req args] show
    "effects (api_download_stream e req) =
        stream_headers @ [Launch (Spawn ''yt-dlp'' args)]
        @ concat (map relay (events (spawn e ''yt-dlp'' args)))
        @ [Write (Obj [(''type'', Str ''error''),
                       (''message'', Str (''Process exited with code '' @ show_code code))]),
           End]"
    by (simp add: on_ending_def on_close_def)
qed

lemma show_code_one: "show_int 1 = ''1''"
  by (simp add: show_int_def show_nat.simps digit_def)

text \<open>A run that prints one diagnostic on stderr and ends with exit code 1.\<close>

theorem nonzero_exit_reports_failure_witness:
  "launches (effects (api_download (sample_env failed_run) (sample_request (Str ''https://example.com/v''))))
     = [Spawn ''yt-dlp''
          [Str ''-f'', Str ''bestvideo[ext=mp4]+bestaudio[ext=m4a]/best[ext=mp4]/best'',
           Str ''--merge-output-format'', Str ''mp4'',
           Str ''-o'', Str ''/app/downloads/video_1700000000000_k3j9x2m1q.mp4'',
           Str ''--no-playlist'', Str ''https://example.com/v'']]
   \<and> launches (effects (api_download_audio (sample_env failed_run)
         (sample_request (Str ''https://example.com/v''))))
     = [Spawn ''yt-dlp''
          [Str ''-x'', Str ''--audio-format'', Str ''mp3'', Str ''--audio-quality'', Str ''0'',
           Str ''-o'', Str ''/app/downloads/audio_1700000000000_k3j9x2m1q.mp3'',
           Str ''--no-playlist'', Str ''https://example.com/v'']]
   \<and> launches (effects (api_download_stream (sample_env failed_run)
         (sample_request (Str ''https://example.com/v''))))
     = [Spawn ''yt-dlp''
          [Str ''-f'', Str ''bestvideo[ext=mp4]+bestaudio[ext=m4a]/best[ext=mp4]/best'',
           Str ''--merge-output-format'', Str ''mp4'',
           Str ''-o'', Str ''/app/downloads/video_1700000000000_k3j9x2m1q.%(ext)s'',
           Str ''--no-playlist'', Str ''--newline'', Str ''https://example.com/v'']]
   \<and> ending failed_run = CloseEv (Some 1)
   \<and> Some (1::int) \<noteq> Some 0
   \<and> sent (effects (api_download (sample_env failed_run) (sample_request (Str ''https://example.com/v''))))
       = Obj [(''success'', Bool False), (''error'', Str ''ERROR: Unsupported URL''),
              (''jobId'', Str ''video_1700000000000_k3j9x2m1q'')]
   \<and> sent (effects (api_download_audio (sample_env failed_run) (sample_request (Str ''https://example.com/v''))))
       = Obj [(''success'', Bool False), (''error'', Str ''ERROR: Unsupported URL''),
              (''jobId'', Str ''audio_1700000000000_k3j9x2m1q'')]
   \<and> effects (api_download_stream (sample_env failed_run) (sample_request (Str ''https://example.com/v''))) =
       stream_headers
       @ [Launch (Spawn ''yt-dlp''
            (stream_args (sample_env failed_run) (sample_request (Str ''https://example.com/v'')))),
          Write (Obj [(''type'', Str ''log''), (''message'', Str ''ERROR: Unsupported URL'')]),
          Write (Obj [(''type'', Str ''error''), (''message'', Str ''Process exited with code 1'')]),
          End]"
proof -
  let ?req = "sample_request (Str ''https://example.com/v'')"
  let ?e = "sample_env failed_run"
  let ?A1 = "[Str ''-f'', Str ''bestvideo[ext=mp4]+bestaudio[ext=m4a]/best[ext=mp4]/best'',
           Str ''--merge-output-format'', Str ''mp4'',
           Str ''-o'', Str ''/app/downloads/video_1700000000000_k3j9x2m1q.mp4'',
           Str ''--no-playlist'', Str ''https://example.com/v'']"
  let ?A2 = "[Str ''-x'', Str ''--audio-format'', Str ''mp3'', Str ''--audio-quality'', Str ''0'',
           Str ''-o'', Str ''/app/downloads/audio_1700000000000_k3j9x2m1q.mp3'',
           Str ''--no-playlist'', Str ''https://example.com/v'']"
  let ?A3 = "[Str ''-f'', Str ''bestvideo[ext=mp4]+bestaudio[ext=m4a]/best[ext=mp4]/best'',
           Str ''--merge-output-format'', Str ''mp4'',
           Str ''-o'', Str ''/app/downloads/video_1700000000000_k3j9x2m1q.%(ext)s'',
           Str ''--no-playlist'', Str ''--newline'', Str ''https://example.com/v'']"
  have c: "Some (1::int) \<noteq> Some 0" by simp
  have l1: "launches (effects (api_download ?e ?req)) = [Spawn ''yt-dlp'' ?A1]"
    by (simp add: sample_download launches_replies split: sum.splits)
  have l2: "launches (effects (api_download_audio ?e ?req)) = [Spawn ''yt-dlp'' ?A2]"
    by (simp add: sample_download_audio launches_replies split: sum.splits)
  have l3: "launches (effects (api_download_stream ?e ?req)) = [Spawn ''yt-dlp'' ?A3]"
    by (simp add: api_download_stream_def Let_def sample_formats launches_append launches_relay
        launches_on_ending stream_headers_def sample_stream_args convertible_def)
  note inst = nonzero_exit_reports_failure [of ?e ?req]
  from inst l1 c have v: "effects (api_download ?e ?req) =
        [Launch (Spawn ''yt-dlp'' ?A1),
         Status 500,
         Json (Obj [(''success'', Bool False),
                    (''error'',
                     Str (if stderr_of (events (spawn ?e ''yt-dlp'' ?A1)) \<noteq> []
                          then stderr_of (events (spawn ?e ''yt-dlp'' ?A1))
                          else ''Process exited with code '' @ show_code (Some 1))),
                    (''jobId'', Str (jobId_of ''video'' ?e))])]"
    by (simp add: sample_runs sample_run_facts)
  from inst l2 c have a: "effects (api_download_audio ?e ?req) =
        [Launch (Spawn ''yt-dlp'' ?A2),
         Status 500,
         Json (Obj [(''success'', Bool False),
                    (''error'',
                     Str (if stderr_of (events (spawn ?e ''yt-dlp'' ?A2)) \<noteq> []
                          then stderr_of (events (spawn ?e ''yt-dlp'' ?A2))
                          else ''Process exited with code '' @ show_code (Some 1))),
                    (''jobId'', Str (jobId_of ''audio'' ?e))])]"
    by (simp add: sample_runs sample_run_facts)
  from inst l3 c have s: "effects (api_download_stream ?e ?req) =
        stream_headers @ [Launch (Spawn ''yt-dlp'' ?A3)]
        @ concat (map relay (events (spawn ?e ''yt-dlp'' ?A3)))
        @ [Write (Obj [(''type'', Str ''error''),
                       (''message'', Str (''Process exited with code '' @ show_code (Some 1)))]),
           End]"
    by (simp add: sample_runs sample_run_facts)
  have r1: "sent (effects (api_download ?e ?req))
       = Obj [(''success'', Bool False), (''error'', Str ''ERROR: Unsupported URL''),
              (''jobId'', Str ''video_1700000000000_k3j9x2m1q'')]"
    unfolding v by (simp add: sample_runs sample_run_facts sample_jobId)
  have r2: "sent (effects (api_download_audio ?e ?req))
       = Obj [(''success'', Bool False), (''error'', Str ''ERROR: Unsupported URL''),
              (''jobId'', Str ''audio_1700000000000_k3j9x2m1q'')]"
    unfolding a by (simp add: sample_runs sample_run_facts sample_audio_jobId)
  have r3: "effects (api_download_stream ?e ?req) =
       stream_headers
       @ [Launch (Spawn ''yt-dlp'' (stream_args ?e ?req)),
          Write (Obj [(''type'', Str ''log''), (''message'', Str ''ERROR: Unsupported URL'')]),
          Write (Obj [(''type'', Str ''error''), (''message'', Str ''Process exited with code 1'')]),
          End]"
    unfolding s by (simp add: sample_runs sample_run_facts show_code_one sample_stream_args)
  from l1 l2 l3 c r1 r2 r3 show ?thesis
    by (simp add: sample_run_facts)
qed

text \<open>
  Against claim C3 as stated: in the streaming variant the process has written a diagnostic
  to stderr and ended with code 1, and the failure carries the exit-code message, not the
  diagnostic.
\<close>

theorem stream_failure_omits_stderr:
  "ending (stream_run (sample_env failed_run) (sample_request (Str ''https://example.com/v'')))
     = CloseEv (Some 1)
   \<and> stderr_of (events (stream_run (sample_env failed_run) (sample_request (Str ''https://example.com/v''))))
     = ''ERROR: Unsupported URL''
   \<and> terminal_events (effects (api_download_stream (sample_env failed_run)
        (sample_request (Str ''https://example.com/v''))))
     = [Obj [(''type'', Str ''error''), (''message'', Str ''Process exited with code 1'')]]
   \<and> Str ''Process exited with code 1'' \<noteq> Str ''ERROR: Unsupported URL''"
  by (simp add: sample_stream_effects sample_runs failed_run_def Let_def on_ending_def on_close_def
      stream_headers_def is_terminal_def show_int_def show_nat.simps digit_def
      terminal_events_append)

section \<open>The name reported for a finished job\<close>

lemma prefix_hd_filter: "filter (prefix p) xs \<noteq> [] \<Longrightarrow> prefix p (hd (filter (prefix p) xs))"
  using hd_in_set [of "filter (prefix p) xs"] by auto

lemma complete_frame_from_close:
  assumes "Write frame \<in> set (effects (api_download_stream e req))"
    and "field frame ''type'' = Str ''complete''"
  shows "stream_files (disk (stream_run e req)) (jobId_of ''video'' e) \<noteq> []
     \<and> field frame ''fileName''
         = Str (hd (stream_files (disk (stream_run e req)) (jobId_of ''video'' e)))
     \<and> job (api_download_stream e req) = Some (jobId_of ''video'' e)"
proof -
  have r: False if "Write frame \<in> set (concat (map relay evs))" for evs
    using that assms(2)
  proof (induction evs)
    case Nil
    then show ?case by simp
  next
    case (Cons ev evs)
    then show ?case by (cases ev) auto
  qed
  show ?thesis
  proof (cases "truthy (body_url req)")
    case False
    with assms show ?thesis by (simp add: api_download_stream_def url_required_def)
  next
    case True
    with assms(1) r have "Write frame \<in> set (on_ending req (jobId_of ''video'' e) (stream_run e req))"
      by (auto simp: api_download_stream_def Let_def stream_headers_def split: if_splits)
    with assms(2) True show ?thesis
      by (auto simp: api_download_stream_def on_ending_def on_close_def Let_def
          split: ending.splits if_splits)
  qed
qed

lemma success_reply_download:
  assumes "field (sent (effects (api_download e req))) ''success'' = Bool True"
  shows "job (api_download e req) = Some (jobId_of ''video'' e)
     \<and> (\<exists>format. to_str (default_to ''mp4'' (body_format req)) = Some format
          \<and> field (sent (effects (api_download e req))) ''fileName''
              = Str (jobId_of ''video'' e @ ''.'' @ format))"
proof -
  have t: "truthy (body_url req)"
  proof (rule ccontr)
    assume "\<not> truthy (body_url req)"
    then have "api_download e req = url_required" by (simp add: api_download_def)
    with assms show False by (simp add: url_required_def)
  qed
  obtain format where f: "to_str (default_to ''mp4'' (body_format req)) = Some format"
    using assms t by (cases "to_str (default_to ''mp4'' (body_format req))")
      (auto simp: api_download_def Let_def)
  show ?thesis
    using assms t f
    by (auto simp: api_download_def Let_def job_failed_def job_done_def
        split: option.splits sum.splits if_splits)
qed

lemma success_reply_audio:
  assumes "field (sent (effects (api_download_audio e req))) ''success'' = Bool True"
  shows "job (api_download_audio e req) = Some (jobId_of ''audio'' e)
     \<and> (\<exists>format. to_str (default_to ''mp3'' (body_format req)) = Some format
          \<and> field (sent (effects (api_download_audio e req))) ''fileName''
              = Str (jobId_of ''audio'' e @ ''.'' @ format))"
proof -
  have t: "truthy (body_url req)"
  proof (rule ccontr)
    assume "\<not> truthy (body_url req)"
    then have "api_download_audio e req = url_required" by (simp add: api_download_audio_def)
    with assms show False by (simp add: url_required_def)
  qed
  obtain format where f: "to_str (default_to ''mp3'' (body_format req)) = Some format"
    using assms t by (cases "to_str (default_to ''mp3'' (body_format req))")
      (auto simp: api_download_audio_def Let_def)
  show ?thesis
    using assms t f
    by (auto simp: api_download_audio_def Let_def job_failed_def job_done_def
        split: option.splits sum.splits if_splits)
qed

text \<open>
  Claim C6. The file name reported for a successful job starts with the identifier of that
  job. The video and the audio handler report the identifier, a dot and the format; the
  streaming handler reports a listed entry whose name has the identifier as a prefix.
\<close>

theorem reported_name_has_job_prefix:
  "(field (sent (effects (api_download e req))) ''success'' = Bool True \<longrightarrow>
      job (api_download e req) = Some (jobId_of ''video'' e)
      \<and> (\<exists>format. to_str (default_to ''mp4'' (body_format req)) = Some format
           \<and> field (sent (effects (api_download e req))) ''fileName''
               = Str (jobId_of ''video'' e @ ''.'' @ format)))
   \<and> (field (sent (effects (api_download_audio e req))) ''success'' = Bool True \<longrightarrow>
      job (api_download_audio e req) = Some (jobId_of ''audio'' e)
      \<and> (\<exists>format. to_str (default_to ''mp3'' (body_format req)) = Some format
           \<and> field (sent (effects (api_download_audio e req))) ''fileName''
               = Str (jobId_of ''audio'' e @ ''.'' @ format)))
   \<and> (\<forall>frame. Write frame \<in> set (effects (api_download_stream e req))
          \<and> field frame ''type'' = Str ''complete'' \<longrightarrow>
        job (api_download_stream e req) = Some (jobId_of ''video'' e)
        \<and> (\<exists>fileName. field frame ''fileName'' = Str fileName
              \<and> prefix (jobId_of ''video'' e) fileName))"
proof -
  have p1: "field (sent (effects (api_download e req))) ''success'' = Bool True \<longrightarrow>
      job (api_download e req) = Some (jobId_of ''video'' e)
      \<and> (\<exists>format. to_str (default_to ''mp4'' (body_format req)) = Some format
           \<and> field (sent (effects (api_download e req))) ''fileName''
               = Str (jobId_of ''video'' e @ ''.'' @ format))"
    using success_reply_download by blast
  have p2: "field (sent (effects (api_download_audio e req))) ''success'' = Bool True \<longrightarrow>
      job (api_download_audio e req) = Some (jobId_of ''audio'' e)
      \<and> (\<exists>format. to_str (default_to ''mp3'' (body_format req)) = Some format
           \<and> field (sent (effects (api_download_audio e req))) ''fileName''
               = Str (jobId_of ''audio'' e @ ''.'' @ format))"
    using success_reply_audio by blast
  have p3: "\<forall>frame. Write frame \<in> set (effects (api_download_stream e req))
          \<and> field frame ''type'' = Str ''complete'' \<longrightarrow>
        job (api_download_stream e req) = Some (jobId_of ''video'' e)
        \<and> (\<exists>fileName. field frame ''fileName'' = Str fileName
              \<and> prefix (jobId_of ''video'' e) fileName)"
  proof (intro allI impI)
    fix frame
    assume a: "Write frame \<in> set (effects (api_download_stream e req))
        \<and> field frame ''type'' = Str ''complete''"
    then have c: "stream_files (disk (stream_run e req)) (jobId_of ''video'' e) \<noteq> []"
      "field frame ''fileName''
           = Str (hd (stream_files (disk (stream_run e req)) (jobId_of ''video'' e)))"
      "job (api_download_stream e req) = Some (jobId_of ''video'' e)"
      using complete_frame_from_close by blast+
    have "prefix (jobId_of ''video'' e)
        (hd (stream_files (disk (stream_run e req)) (jobId_of ''video'' e)))"
      using c(1) unfolding stream_files_def by (rule prefix_hd_filter)
    with c(2,3) show "job (api_download_stream e req) = Some (jobId_of ''video'' e)
          \<and> (\<exists>fileName. field frame ''fileName'' = Str fileName
                \<and> prefix (jobId_of ''video'' e) fileName)"
      by blast
  qed
  from p1 p2 p3 show ?thesis by (intro conjI)
qed

text \<open>The three handlers on the run that leaves the files of the job on the disk.\<close>

theorem reported_name_has_job_prefix_witness:
  "field (sent (effects (api_download (sample_env good_run) (sample_request (Str ''https://example.com/v'')))))
       ''success'' = Bool True
   \<and> field (sent (effects (api_download_audio (sample_env good_run)
        (sample_request (Str ''https://example.com/v''))))) ''success'' = Bool True
   \<and> Write (Obj [(''type'', Str ''complete''), (''success'', Bool True),
                 (''fileName'', Str ''video_1700000000000_k3j9x2m1q.mp4''),
                 (''downloadUrl'',
                  Str ''http://localhost:3000/api/file/video_1700000000000_k3j9x2m1q.mp4'')])
       \<in> set (effects (api_download_stream (sample_env good_run)
                (sample_request (Str ''https://example.com/v''))))
   \<and> job (api_download (sample_env good_run) (sample_request (Str ''https://example.com/v'')))
       = Some ''video_1700000000000_k3j9x2m1q''
   \<and> field (sent (effects (api_download (sample_env good_run)
        (sample_request (Str ''https://example.com/v''))))) ''fileName''
       = Str ''video_1700000000000_k3j9x2m1q.mp4''
   \<and> job (api_download_audio (sample_env good_run) (sample_request (Str ''https://example.com/v'')))
       = Some ''audio_1700000000000_k3j9x2m1q''
   \<and> field (sent (effects (api_download_audio (sample_env good_run)
        (sample_request (Str ''https://example.com/v''))))) ''fileName''
       = Str ''audio_1700000000000_k3j9x2m1q.mp3''
   \<and> job (api_download_stream (sample_env good_run) (sample_request (Str ''https://example.com/v'')))
       = Some ''video_1700000000000_k3j9x2m1q''
   \<and> prefix ''video_1700000000000_k3j9x2m1q'' ''video_1700000000000_k3j9x2m1q.mp4''"
proof -
  let ?req = "sample_request (Str ''https://example.com/v'')"
  let ?e = "sample_env good_run"
  let ?frame = "Obj [(''type'', Str ''complete''), (''success'', Bool True),
                 (''fileName'', Str ''video_1700000000000_k3j9x2m1q.mp4''),
                 (''downloadUrl'',
                  Str ''http://localhost:3000/api/file/video_1700000000000_k3j9x2m1q.mp4'')]"
  have s1: "field (sent (effects (api_download ?e ?req))) ''success'' = Bool True"
    by (simp add: sample_download settle_zero sample_run_facts sample_exists job_done_def)
  have s2: "field (sent (effects (api_download_audio ?e ?req))) ''success'' = Bool True"
    by (simp add: sample_download_audio settle_zero sample_run_facts sample_exists job_done_def)
  have s3: "Write ?frame \<in> set (effects (api_download_stream ?e ?req))"
    by (simp add: api_download_stream_def Let_def sample_formats sample_runs on_ending_def
        on_close_def sample_run_facts sample_jobId sample_stream_files sample_urls
        sample_stream_args convertible_def)
  have t: "field ?frame ''type'' = Str ''complete''" by simp
  from reported_name_has_job_prefix [of ?e ?req] s1 s2 s3 t
  have "job (api_download ?e ?req) = Some (jobId_of ''video'' ?e)"
    "\<exists>format. to_str (default_to ''mp4'' (body_format ?req)) = Some format
           \<and> field (sent (effects (api_download ?e ?req))) ''fileName''
               = Str (jobId_of ''video'' ?e @ ''.'' @ format)"
    "job (api_download_audio ?e ?req) = Some (jobId_of ''audio'' ?e)"
    "\<exists>format. to_str (default_to ''mp3'' (body_format ?req)) = Some format
           \<and> field (sent (effects (api_download_audio ?e ?req))) ''fileName''
               = Str (jobId_of ''audio'' ?e @ ''.'' @ format)"
    "job (api_download_stream ?e ?req) = Some (jobId_of ''video'' ?e)"
    by blast+
  then show ?thesis
    using s1 s2 s3
    by (auto simp: sample_jobId sample_audio_jobId sample_formats)
qed

section \<open>The projection of the video information\<close>

lemma get_prop_field: "get_prop v k = Inr x \<Longrightarrow> x = field v k"
  by (cases v) auto

lemma get_props_fields:
  "get_props v ks = Inr kvs \<Longrightarrow> kvs = map (\<lambda>k. (k, field v k)) ks"
proof (induction ks arbitrary: kvs)
  case Nil
  then show ?case by simp
next
  case (Cons k ks)
  then show ?case
    by (auto split: sum.splits dest: get_prop_field)
qed

lemma reduce_formats_map:
  "reduce_formats fs = Inr rs \<Longrightarrow>
     rs = map (\<lambda>f. Obj [(''format_id'', field f ''format_id''), (''ext'', field f ''ext''),
                        (''resolution'', field f ''resolution''),
                        (''filesize'', field f ''filesize'')]) fs"
proof (induction fs arbitrary: rs)
  case Nil
  then show ?case by simp
next
  case (Cons f fs)
  from Cons.prems obtain kvs rs' where
    k: "get_props f [''format_id'', ''ext'', ''resolution'', ''filesize''] = Inr kvs"
    and r: "reduce_formats fs = Inr rs'" and rs: "rs = Obj kvs # rs'"
    by (auto split: sum.splits)
  from k have "kvs = [(''format_id'', field f ''format_id''), (''ext'', field f ''ext''),
                        (''resolution'', field f ''resolution''),
                        (''filesize'', field f ''filesize'')]"
    using get_props_fields [OF k] by simp
  with Cons.IH [OF r] rs show ?case by simp
qed

lemma formats_of_cases:
  assumes "formats_of v = Inr fl"
  shows "(\<exists>fs. v = Arr fs
            \<and> fl = Arr (map (\<lambda>f. Obj [(''format_id'', field f ''format_id''), (''ext'', field f ''ext''),
                                      (''resolution'', field f ''resolution''),
                                      (''filesize'', field f ''filesize'')]) fs))
       \<or> ((v = Undefined \<or> v = Null) \<and> fl = Arr [])"
  using assms
  by (cases v) (auto simp: formats_of_def split: sum.splits dest: reduce_formats_map)

lemma info_data_shape:
  assumes "info_data info = Inr data"
  shows "\<exists>fl. formats_of (field info ''formats'') = Inr fl
      \<and> data = Obj [(''title'', field info ''title''), (''duration'', field info ''duration''),
                    (''thumbnail'', field info ''thumbnail''),
                    (''description'', field info ''description''),
                    (''uploader'', field info ''uploader''),
                    (''upload_date'', field info ''upload_date''),
                    (''view_count'', field info ''view_count''),
                    (''formats'', fl)]"
proof -
  from assms obtain kvs formats fl where
    k: "get_props info [''title'', ''duration'', ''thumbnail'', ''description'', ''uploader'',
              ''upload_date'', ''view_count''] = Inr kvs"
    and f: "get_prop info ''formats'' = Inr formats"
    and fl: "formats_of formats = Inr fl"
    and d: "data = Obj (kvs @ [(''formats'', fl)])"
    by (auto simp: info_data_def split: sum.splits)
  from k have "kvs = map (\<lambda>k. (k, field info k)) [''title'', ''duration'', ''thumbnail'',
      ''description'', ''uploader'', ''upload_date'', ''view_count'']"
    by (rule get_props_fields)
  moreover from f have "formats = field info ''formats''" by (rule get_prop_field)
  ultimately show ?thesis using fl d by simp
qed

text \<open>
  Claim C7, as the code has it. The payload of a successful information query has exactly
  the fields title, duration, thumbnail, description, uploader, upload_date, view_count
  and formats, each copied from the parsed output of the tool. The formats are all the
  format descriptors of that output, in order, each reduced to format_id, ext,
  resolution and filesize; absent or null formats give the empty list.
\<close>

theorem info_projection:
  assumes "field (sent (effects (api_info e req))) ''success'' = Bool True"
  shows "\<exists>url stdout info formats.
       to_str (body_url req) = Some url
     \<and> execAsync e (info_cmd url) = Inr stdout
     \<and> JSON_parse e stdout = Inr info
     \<and> field (sent (effects (api_info e req))) ''data''
         = Obj [(''title'', field info ''title''), (''duration'', field info ''duration''),
                (''thumbnail'', field info ''thumbnail''),
                (''description'', field info ''description''),
                (''uploader'', field info ''uploader''),
                (''upload_date'', field info ''upload_date''),
                (''view_count'', field info ''view_count''),
                (''formats'', Arr formats)]
     \<and> ((\<exists>fs. field info ''formats'' = Arr fs
            \<and> formats = map (\<lambda>f. Obj [(''format_id'', field f ''format_id''),
                                       (''ext'', field f ''ext''),
                                       (''resolution'', field f ''resolution''),
                                       (''filesize'', field f ''filesize'')]) fs)
         \<or> ((field info ''formats'' = Undefined \<or> field info ''formats'' = Null) \<and> formats = []))"
proof -
  have t: "truthy (body_url req)"
  proof (rule ccontr)
    assume "\<not> truthy (body_url req)"
    then have "api_info e req = url_required" by (simp add: api_info_def)
    with assms show False by (simp add: url_required_def)
  qed
  obtain url where u: "to_str (body_url req) = Some url"
    using assms t by (cases "to_str (body_url req)") (auto simp: api_info_def info_failed_def)
  from assms t u obtain stdout info data where
    x: "execAsync e (info_cmd url) = Inr stdout"
    and p: "JSON_parse e stdout = Inr info"
    and d: "info_data info = Inr data"
    and s: "sent (effects (api_info e req)) = Obj [(''success'', Bool True), (''data'', data)]"
    by (auto simp: api_info_def Let_def info_failed_def split: sum.splits)
  from info_data_shape [OF d] obtain fl where
    fl: "formats_of (field info ''formats'') = Inr fl"
    and data: "data = Obj [(''title'', field info ''title''), (''duration'', field info ''duration''),
                    (''thumbnail'', field info ''thumbnail''),
                    (''description'', field info ''description''),
                    (''uploader'', field info ''uploader''),
                    (''upload_date'', field info ''upload_date''),
                    (''view_count'', field info ''view_count''),
                    (''formats'', fl)]"
    by blast
  from formats_of_cases [OF fl] obtain formats where
    a: "fl = Arr formats"
    and b: "(\<exists>fs. field info ''formats'' = Arr fs
            \<and> formats = map (\<lambda>f. Obj [(''format_id'', field f ''format_id''),
                                       (''ext'', field f ''ext''),
                                       (''resolution'', field f ''resolution''),
                                       (''filesize'', field f ''filesize'')]) fs)
         \<or> ((field info ''formats'' = Undefined \<or> field info ''formats'' = Null) \<and> formats = [])"
    by blast
  have "field (sent (effects (api_info e req))) ''data''
         = Obj [(''title'', field info ''title''), (''duration'', field info ''duration''),
                (''thumbnail'', field info ''thumbnail''),
                (''description'', field info ''description''),
                (''uploader'', field info ''uploader''),
                (''upload_date'', field info ''upload_date''),
                (''view_count'', field info ''view_count''),
                (''formats'', Arr formats)]"
    unfolding s data a by simp
  with u x p b show ?thesis by blast
qed

lemma sample_info_reply:
  "sent (effects (api_info (sample_env r) (sample_request (Str ''https://example.com/v'')))) =
     Obj [(''success'', Bool True),
          (''data'',
           Obj [(''title'', Str ''A video''), (''duration'', Num ''212''),
                (''thumbnail'', Undefined), (''description'', Str ''About the video''),
                (''uploader'', Undefined), (''upload_date'', Undefined),
                (''view_count'', Undefined),
                (''formats'',
                 Arr [Obj [(''format_id'', Str ''18''), (''ext'', Str ''mp4''),
                           (''resolution'', Str ''640x360''), (''filesize'', Num ''1000'')]])])]"
  by (simp add: api_info_def Let_def sample_request_def sample_env_def info_data_def
      sample_info_def formats_of_def)

text \<open>The query on the sample output of the tool.\<close>

theorem info_projection_witness:
  "field (sent (effects (api_info (sample_env good_run) (sample_request (Str ''https://example.com/v'')))))
      ''success'' = Bool True
   \<and> (\<exists>url stdout info formats.
        to_str (body_url (sample_request (Str ''https://example.com/v''))) = Some url
      \<and> execAsync (sample_env good_run) (info_cmd url) = Inr stdout
      \<and> JSON_parse (sample_env good_run) stdout = Inr info
      \<and> field (sent (effects (api_info (sample_env good_run)
            (sample_request (Str ''https://example.com/v''))))) ''data''
         = Obj [(''title'', field info ''title''), (''duration'', field info ''duration''),
                (''thumbnail'', field info ''thumbnail''),
                (''description'', field info ''description''),
                (''uploader'', field info ''uploader''),
                (''upload_date'', field info ''upload_date''),
                (''view_count'', field info ''view_count''),
                (''formats'', Arr formats)])
   \<and> field (sent (effects (api_info (sample_env good_run)
         (sample_request (Str ''https://example.com/v''))))) ''data''
       = Obj [(''title'', Str ''A video''), (''duration'', Num ''212''),
              (''thumbnail'', Undefined), (''description'', Str ''About the video''),
              (''uploader'', Undefined), (''upload_date'', Undefined),
              (''view_count'', Undefined),
              (''formats'',
               Arr [Obj [(''format_id'', Str ''18''), (''ext'', Str ''mp4''),
                         (''resolution'', Str ''640x360''), (''filesize'', Num ''1000'')]])]"
proof -
  have h: "field (sent (effects (api_info (sample_env good_run)
      (sample_request (Str ''https://example.com/v''))))) ''success'' = Bool True"
    by (simp add: sample_info_reply)
  from info_projection [OF h] h show ?thesis
    by (simp add: sample_info_reply) blast
qed

text \<open>
  Against claim C7 as stated: the payload carries the description of the video, which is
  not among title, duration, thumbnail, uploader, upload date, view count and formats.
\<close>

theorem info_payload_has_description:
  "keys_of (field (sent (effects (api_info (sample_env good_run)
       (sample_request (Str ''https://example.com/v''))))) ''data'')
     = [''title'', ''duration'', ''thumbnail'', ''description'', ''uploader'', ''upload_date'',
        ''view_count'', ''formats'']
   \<and> field (field (sent (effects (api_info (sample_env good_run)
       (sample_request (Str ''https://example.com/v''))))) ''data'') ''description''
     = Str ''About the video''
   \<and> ''description'' \<notin> set [''title'', ''duration'', ''thumbnail'', ''uploader'', ''upload_date'',
        ''view_count'', ''formats'']"
  by (simp add: sample_info_reply)

section \<open>Values that do not convert to a string\<close>

lemma those_None: "None \<in> set ys \<Longrightarrow> those ys = None"
  by (induction ys) (auto split: option.splits)

lemma js_join_None:
  assumes "x \<in> set xs" and "to_str x = None"
  shows "js_join sep xs = None"
proof -
  have "x \<noteq> Undefined" "x \<noteq> Null" using assms(2) by auto
  then have "None \<in> set (map (\<lambda>x. if x = Undefined \<or> x = Null then Some [] else to_str x) xs)"
    using assms by (auto simp: image_iff intro!: bexI [of _ x])
  then show ?thesis by (simp add: js_join_def those_None)
qed

text \<open>
  A format or a URL that does not convert to a string ends the video handler before the
  tool is launched: the format with an exception that nothing catches, the URL with the
  reply of the \<^verbatim>\<open>catch\<close> block.
\<close>

lemma unconvertible_format_uncaught:
  assumes "truthy (body_url req)" and "to_str (default_to ''mp4'' (body_format req)) = None"
  shows "effects (api_download e req) = [Uncaught cannot_convert]"
  using assms by (simp add: api_download_def Let_def)

lemma unconvertible_url_rejected:
  assumes "truthy (body_url req)" and "to_str (default_to ''mp4'' (body_format req)) = Some format"
    and "to_str (body_url req) = None"
  shows "effects (api_download e req) = job_failed cannot_convert (jobId_of ''video'' e)"
proof -
  have "js_join '' '' (download_args p req) = None" for p
    by (rule js_join_None [of "body_url req"]) (simp_all add: download_args_def Let_def assms(3))
  then show ?thesis using assms by (simp add: api_download_def Let_def)
qed

text \<open>
  The streaming handler converts nothing itself; there the exception comes from \<^verbatim>\<open>spawn\<close>
  and the router answers it.
\<close>

lemma unconvertible_argument_faults:
  assumes "truthy (body_url req)" and "to_str (body_url req) = None"
  shows "effects (api_download_stream e req) = stream_headers @ [Fault cannot_convert]"
  using assms by (simp add: api_download_stream_def Let_def stream_args_def convertible_def)

end
